theory Spec2Isabelle
  imports Main
begin

section \<open>Strings of the source language\<close>

text \<open>
  A string of the program is a sequence of UTF-16 code units, and \<open>length\<close> counts
  code units, as the \<open>.length\<close> of the source does. The literals of the source that are
  not ASCII are written out as their code units; ASCII literals go through \<open>js\<close>.
\<close>

type_synonym jsstring = "nat list"

definition js :: "string \<Rightarrow> jsstring" where
  "js s = map of_char s"

text \<open>
  \<open>String.prototype.toLowerCase\<close>. Only the letters A to Z are mapped here. No code point
  outside ASCII lower-cases to a full stop or to one of the letters of \<open>.pdf\<close> and
  \<open>.csv\<close>, so the suffix tests of the program, the only users of this function, give the
  same answer as with the full Unicode mapping.
\<close>

definition lowerUnit :: "nat \<Rightarrow> nat" where
  "lowerUnit c = (if 65 \<le> c \<and> c \<le> 90 then c + 32 else c)"

definition toLowerCase :: "jsstring \<Rightarrow> jsstring" where
  "toLowerCase s = map lowerUnit s"

text \<open>\<open>String.prototype.endsWith\<close>.\<close>

definition endsWith :: "jsstring \<Rightarrow> jsstring \<Rightarrow> bool" where
  "endsWith s suf = (length suf \<le> length s \<and> drop (length s - length suf) s = suf)"

text \<open>
  The white space and line terminators that \<open>String.prototype.trim\<close> removes
  (ECMAScript: TAB, VT, FF, SP, NBSP, ZWNBSP, the category Zs, LF, CR, LS, PS).
\<close>

definition isWhiteSpace :: "nat \<Rightarrow> bool" where
  "isWhiteSpace c =
     (c = 9 \<or> c = 10 \<or> c = 11 \<or> c = 12 \<or> c = 13 \<or> c = 32 \<or> c = 160 \<or> c = 5760
      \<or> (8192 \<le> c \<and> c \<le> 8202) \<or> c = 8232 \<or> c = 8233 \<or> c = 8239 \<or> c = 8287
      \<or> c = 12288 \<or> c = 65279)"

definition trim :: "jsstring \<Rightarrow> jsstring" where
  "trim s = rev (dropWhile isWhiteSpace (rev (dropWhile isWhiteSpace s)))"

text \<open>\<open>String.prototype.split\<close> with a separator of one code unit.\<close>

fun split :: "nat \<Rightarrow> jsstring \<Rightarrow> jsstring list" where
  "split sep [] = [[]]"
| "split sep (c # cs) =
     (if c = sep then [] # split sep cs
      else (case split sep cs of
              [] \<Rightarrow> [[c]]
            | p # ps \<Rightarrow> (c # p) # ps))"

text \<open>\<open>Array.prototype.join\<close>.\<close>

fun join :: "jsstring \<Rightarrow> jsstring list \<Rightarrow> jsstring" where
  "join sep [] = []"
| "join sep [x] = x"
| "join sep (x # y # ys) = x @ sep @ join sep (y # ys)"

text \<open>\<open>Number.prototype.toString\<close> on a natural number: its decimal digits.\<close>

fun toString :: "nat \<Rightarrow> jsstring" where
  "toString n = (if n < 10 then [48 + n] else toString (n div 10) @ [48 + n mod 10])"

declare toString.simps [simp del]

section \<open>Data model (types.ts)\<close>

datatype SourceType = PDF | CSV | WEB | TEXT

datatype ProcessingStatus = PENDING | PROCESSING | COMPLETED | ERROR

record KnowledgeSource =
  src_id :: jsstring
  partitionId :: jsstring
  sequenceNumber :: nat
  name :: jsstring
  type :: SourceType
  content :: jsstring
  url :: "jsstring option"
  dateAdded :: nat
  size_label :: "jsstring option"
  status :: ProcessingStatus
  summary :: "jsstring option"

datatype Role = User | Model

record ChatMessage =
  msg_id :: jsstring
  role :: Role
  msg_text :: jsstring
  timestamp :: nat

text \<open>
  A \<open>File\<close> of the browser: its name, its declared MIME type, its size in bytes, and
  \<open>base64\<close>, the payload that \<open>FileReader.readAsDataURL\<close> delivers after the comma of
  the data URL.
\<close>

record File =
  file_name :: jsstring
  file_type :: jsstring
  file_size :: nat
  base64 :: jsstring

section \<open>Content kind of an ingested file (App.tsx, processFiles)\<close>

text \<open>
  \<open>file.name.toLowerCase().endsWith('.pdf') ? PDF : file.name.endsWith('.csv') ? CSV : TEXT\<close>
\<close>

definition fileKind :: "jsstring \<Rightarrow> SourceType" where
  "fileKind fname =
     (if endsWith (toLowerCase fname) (js ''.pdf'') then PDF
      else if endsWith fname (js ''.csv'') then CSV
      else TEXT)"

text \<open>The older variant of processFiles tests both extensions on the name as it is.\<close>

definition fileKind_v0 :: "jsstring \<Rightarrow> SourceType" where
  "fileKind_v0 fname =
     (if endsWith fname (js ''.pdf'') then PDF
      else if endsWith fname (js ''.csv'') then CSV
      else TEXT)"

section \<open>Context assembly (geminiService.ts, analyzeData)\<close>

definition MAX_TOTAL_CHARS :: nat where
  "MAX_TOTAL_CHARS = 1400000"

text \<open>\<open>sources.filter(s => s.content && s.content.length > 0)\<close>\<close>

definition validSources :: "KnowledgeSource list \<Rightarrow> KnowledgeSource list" where
  "validSources sources = filter (\<lambda>s. content s \<noteq> [] \<and> length (content s) > 0) sources"

definition isCsv :: "KnowledgeSource \<Rightarrow> bool" where
  "isCsv s = endsWith (toLowerCase (name s)) (js ''.csv'')"

text \<open>\<open>s.content.split('\n').filter(l => l.trim().length > 0)\<close>\<close>

definition csvLines :: "jsstring \<Rightarrow> jsstring list" where
  "csvLines c = filter (\<lambda>l. length (trim l) > 0) (split 10 c)"

text \<open>
  \<open>lines[0]\<close>. On an empty array the source reads \<open>undefined\<close>, which a template
  literal prints as the word; no row is mapped in that case.
\<close>

definition csvHeader :: "jsstring list \<Rightarrow> jsstring" where
  "csvHeader lines = (case lines of [] \<Rightarrow> js ''undefined'' | h # _ \<Rightarrow> h)"

definition rowLabel :: "nat \<Rightarrow> jsstring" where
  "rowLabel idx = js ''[Row_'' @ toString idx @ js '']''"

definition repeatedHeader :: "jsstring \<Rightarrow> jsstring" where
  "repeatedHeader header = [10] @ js ''(REPEATED_HEADER: '' @ header @ js '')'' @ [10]"

text \<open>The callback of \<open>lines.map((line, idx) => ...)\<close>.\<close>

definition csvRow :: "jsstring \<Rightarrow> nat \<Rightarrow> jsstring \<Rightarrow> jsstring" where
  "csvRow header idx line =
     (if idx > 0 \<and> idx mod 50 = 0
      then repeatedHeader header @ rowLabel idx @ js '' '' @ line
      else rowLabel idx @ js '' '' @ line)"

definition csvRows :: "jsstring \<Rightarrow> jsstring list" where
  "csvRows c =
     (let lines = csvLines c; header = csvHeader lines
      in map (\<lambda>(idx, line). csvRow header idx line) (enumerate 0 lines))"

definition processedContent :: "KnowledgeSource \<Rightarrow> jsstring" where
  "processedContent s = (if isCsv s then join [10] (csvRows (content s)) else content s)"

definition fileHeader :: "KnowledgeSource \<Rightarrow> jsstring" where
  "fileHeader s =
     [10, 10] @ js ''=== FILE_START: '' @ name s @ js '' (Source_ID: '' @ src_id s
       @ js '') ==='' @ [10]"

definition fileFooter :: "KnowledgeSource \<Rightarrow> jsstring" where
  "fileFooter s = [10] @ js ''=== FILE_END: '' @ name s @ js '' ==='' @ [10]"

text \<open>
  The truncation marker: a line feed, three full stops, an opening bracket, the six
  ideographs U+6570 U+636E U+8D85 U+957F U+622A U+65AD ("data too long, cut"), a closing
  bracket and three full stops.
\<close>

definition truncationMarker :: jsstring where
  "truncationMarker =
     [10] @ js ''...['' @ [25968, 25454, 36229, 38271, 25130, 26029] @ js '']...''"

definition availableSpace :: "nat \<Rightarrow> nat \<Rightarrow> KnowledgeSource \<Rightarrow> int" where
  "availableSpace B usedChars s =
     int B - int usedChars - int (length (fileHeader s)) - int (length (fileFooter s))"

text \<open>
  \<open>sourceText\<close>: the processed content, cut by \<open>slice(0, availableSpace)\<close> and followed
  by the marker when it is longer than the space available.
\<close>

definition sourceText :: "int \<Rightarrow> KnowledgeSource \<Rightarrow> jsstring" where
  "sourceText avail s =
     (if int (length (processedContent s)) > avail
      then take (nat avail) (processedContent s) @ truncationMarker
      else processedContent s)"

text \<open>
  The loop \<open>for (const s of validSources)\<close> over the pair
  \<open>(contextBuffer, usedChars)\<close>; \<open>break\<close> returns the pair as it is. The budget is
  the first argument; the program runs the loop with \<open>MAX_TOTAL_CHARS\<close>.
\<close>

fun accumulate :: "nat \<Rightarrow> KnowledgeSource list \<Rightarrow> jsstring \<times> nat \<Rightarrow> jsstring \<times> nat" where
  "accumulate B [] (contextBuffer, usedChars) = (contextBuffer, usedChars)"
| "accumulate B (s # rest) (contextBuffer, usedChars) =
     (if availableSpace B usedChars s \<le> 200 then (contextBuffer, usedChars)
      else accumulate B rest
             (contextBuffer @ fileHeader s @ sourceText (availableSpace B usedChars s) s
                @ fileFooter s,
              usedChars + length (fileHeader s)
                + length (sourceText (availableSpace B usedChars s) s)
                + length (fileFooter s)))"

definition assemble :: "nat \<Rightarrow> KnowledgeSource list \<Rightarrow> jsstring" where
  "assemble B sources = fst (accumulate B (validSources sources) ([], 0))"

section \<open>The platform\<close>

text \<open>
  What a \<open>catch\<close> clause receives: an \<open>Error\<close> object with its message, or any other
  thrown value.
\<close>

datatype thrown = ErrorObj jsstring | OtherThrown

text \<open>\<open>x || d\<close> on an optional string: \<open>undefined\<close> and the empty string are falsy.\<close>

definition orElse :: "jsstring option \<Rightarrow> jsstring \<Rightarrow> jsstring" where
  "orElse x d = (case x of None \<Rightarrow> d | Some t \<Rightarrow> if t = [] then d else t)"

text \<open>
  \<open>atob\<close>, the forgiving base64 decoding of the HTML standard: ASCII white space is
  dropped; when the length is then a multiple of four, one or two closing equals signs are
  dropped; a length of one modulo four or a code unit outside the base64 alphabet raises
  \<open>InvalidCharacterError\<close>; otherwise every code unit gives six bits, and the result
  is a string of bytes.
\<close>

definition isAsciiWhitespace :: "nat \<Rightarrow> bool" where
  "isAsciiWhitespace c = (c = 9 \<or> c = 10 \<or> c = 12 \<or> c = 13 \<or> c = 32)"

definition base64Value :: "nat \<Rightarrow> nat option" where
  "base64Value c =
     (if 65 \<le> c \<and> c \<le> 90 then Some (c - 65)
      else if 97 \<le> c \<and> c \<le> 122 then Some (c - 71)
      else if 48 \<le> c \<and> c \<le> 57 then Some (c + 4)
      else if c = 43 then Some 62
      else if c = 47 then Some 63
      else None)"

fun base64Values :: "jsstring \<Rightarrow> nat list option" where
  "base64Values [] = Some []"
| "base64Values (c # cs) =
     (case base64Value c of
        None \<Rightarrow> None
      | Some v \<Rightarrow> (case base64Values cs of None \<Rightarrow> None | Some vs \<Rightarrow> Some (v # vs)))"

fun base64Bytes :: "nat list \<Rightarrow> nat list" where
  "base64Bytes (a # b # c # d # rest) =
     [a * 4 + b div 16, (b mod 16) * 16 + c div 4, (c mod 4) * 64 + d] @ base64Bytes rest"
| "base64Bytes [a, b, c] = [a * 4 + b div 16, (b mod 16) * 16 + c div 4]"
| "base64Bytes [a, b] = [a * 4 + b div 16]"
| "base64Bytes _ = []"

definition stripPadding :: "jsstring \<Rightarrow> jsstring" where
  "stripPadding d =
     (if length d mod 4 = 0
      then (if endsWith d [61, 61] then take (length d - 2) d
            else if endsWith d [61] then take (length d - 1) d
            else d)
      else d)"

definition invalidCharacterError :: thrown where
  "invalidCharacterError = ErrorObj (js ''InvalidCharacterError'')"

definition atob :: "jsstring \<Rightarrow> thrown + jsstring" where
  "atob data =
     (let d = stripPadding (filter (\<lambda>c. \<not> isAsciiWhitespace c) data)
      in if length d mod 4 = 1 then Inl invalidCharacterError
         else (case base64Values d of
                 None \<Rightarrow> Inl invalidCharacterError
               | Some vs \<Rightarrow> Inr (base64Bytes vs)))"

text \<open>
  A call of the remote model: the classification request of \<open>extractTextFromDocument\<close>
  (model, inline data, MIME type, instruction) or the analysis request of
  \<open>analyzeData\<close> (model, contents, temperature, thinking budget).
\<close>

datatype request =
    ClassifyRequest jsstring jsstring jsstring jsstring
  | AnalyzeRequest jsstring jsstring nat nat

text \<open>
  The functions of the platform that the program calls and that may throw:
  \<^item> \<open>utf8Decode\<close>: \<open>new TextDecoder('utf-8').decode(bytes)\<close> on the bytes of the
    binary string;
  \<^item> \<open>newClient\<close>: \<open>new GoogleGenAI({ apiKey: process.env.API_KEY })\<close>, the first
    statement of the \<open>try\<close> block of every function of the service; \<open>Some e\<close> when
    the constructor throws \<open>e\<close> (as it does without a key), \<open>None\<close> when it returns
    the client;
  \<^item> \<open>generateContent\<close>: \<open>ai.models.generateContent\<close>, giving \<open>response.text\<close>
    (which may be undefined) or throwing;
  \<^item> \<open>jsonSummary\<close>: \<open>JSON.parse(t).summary\<close>, throwing on text that is not JSON,
    and \<open>None\<close> when the field is missing or falsy.
\<close>

record platform =
  utf8Decode :: "jsstring \<Rightarrow> thrown + jsstring"
  newClient :: "thrown option"
  generateContent :: "request \<Rightarrow> thrown + jsstring option"
  jsonSummary :: "jsstring \<Rightarrow> thrown + jsstring option"

text \<open>\<open>error instanceof Error ? error.message : ...\<close> with the text for any other value.\<close>

definition thrownMessage :: "jsstring \<Rightarrow> thrown \<Rightarrow> jsstring" where
  "thrownMessage other e = (case e of ErrorObj m \<Rightarrow> m | OtherThrown \<Rightarrow> other)"

section \<open>Ingestion (geminiService.ts, App.tsx)\<close>

text \<open>
  \<open>safeBase64ToText\<close>: the \<open>try\<close> block decodes with \<open>atob\<close> and then as UTF-8; the
  \<open>catch\<close> block returns \<open>atob(base64)\<close>, outside any handler.
\<close>

definition safeBase64ToText :: "platform \<Rightarrow> jsstring \<Rightarrow> thrown + jsstring" where
  "safeBase64ToText pf b =
     (case (case atob b of
              Inl e \<Rightarrow> Inl e
            | Inr binaryString \<Rightarrow> utf8Decode pf binaryString) of
        Inr t \<Rightarrow> Inr t
      | Inl e \<Rightarrow> atob b)"

text \<open>The instruction sent with the document (a template literal of five lines).\<close>

definition classifyInstruction :: jsstring where
  "classifyInstruction =
     [20320, 26159, 19968, 21517, 36164, 28145, 25968, 25454, 27835, 29702, 19987, 23478,
     12290, 35831, 38024, 23545, 27492, 25991, 20214, 65306, 10, 32, 32, 32, 32, 32, 32,
     32, 32, 32, 32, 32, 32, 49, 46, 32, 30830, 23450, 20854, 26680, 24515, 25968, 25454,
     32500, 24230, 65288, 22914, 65306, 37197, 32622, 24046, 24322, 34920, 12289, 24066,
     22330, 38144, 37327, 26126, 32454, 65289, 12290, 10, 32, 32, 32, 32, 32, 32, 32, 32,
     32, 32, 32, 32, 50, 46, 32, 20005, 31105, 36136, 30097, 25991, 20214, 20013, 25968,
     25454, 30340, 30495, 23454, 24615, 65292, 25991, 20214, 20013, 30340, 27599, 19968,
     20010, 23383, 37117, 26159, 32477, 23545, 30340, 20107, 23454, 12290, 10, 32, 32, 32,
     32, 32, 32, 32, 32, 32, 32, 32, 32, 51, 46, 32, 25552, 20379, 19968, 20010, 50, 53,
     23383, 20197, 20869, 30340, 26680, 24515, 25688, 35201, 12290, 10, 32, 32, 32, 32,
     32, 32, 32, 32, 32, 32, 32, 32, 10, 32, 32, 32, 32, 32, 32, 32, 32, 32, 32, 32, 32,
     36755, 20986, 24517, 39035, 26159, 32431, 32, 74, 83, 79, 78, 12290]"

text \<open>The summary used when the response has none ("full raw data loaded").\<close>

definition defaultSummary :: jsstring where
  "defaultSummary =
     [20840, 37327, 21407, 22987, 25968, 25454, 24050, 36733, 20837]"

text \<open>
  The summary of the \<open>catch\<close> block of \<open>extractTextFromDocument\<close>
  ("raw data ready (automatic recognition failed)").
\<close>

definition catchSummary :: jsstring where
  "catchSummary =
     [21407, 22987, 25968, 25454, 24050, 23601, 32490, 65288, 33258, 21160, 35782, 21035,
     24322, 24120, 65289]"

definition classifyRequest :: "jsstring \<Rightarrow> jsstring \<Rightarrow> request" where
  "classifyRequest base64Data mimeType =
     ClassifyRequest (js ''gemini-3-flash-preview'') base64Data mimeType classifyInstruction"

text \<open>
  The \<open>try\<close> block of \<open>extractTextFromDocument\<close>: the client is constructed, the
  payload is decoded, the remote model is called and its answer is parsed.
\<close>

definition extractTry :: "platform \<Rightarrow> jsstring \<Rightarrow> jsstring \<Rightarrow> thrown + jsstring \<times> jsstring" where
  "extractTry pf base64Data mimeType =
     (case newClient pf of
        Some e \<Rightarrow> Inl e
      | None \<Rightarrow>
          (case safeBase64ToText pf base64Data of
             Inl e \<Rightarrow> Inl e
           | Inr rawContent \<Rightarrow>
               (case generateContent pf (classifyRequest base64Data mimeType) of
                  Inl e \<Rightarrow> Inl e
                | Inr responseText \<Rightarrow>
                    (case jsonSummary pf (orElse responseText (js ''{}'')) of
                       Inl e \<Rightarrow> Inl e
                     | Inr sm \<Rightarrow> Inr (rawContent, orElse sm defaultSummary)))))"

text \<open>
  \<open>extractTextFromDocument\<close>: the pair \<open>(text, summary)\<close>, or the value thrown by the
  \<open>catch\<close> block itself. The file name only feeds a variable that is never read.
\<close>

definition extractTextFromDocument ::
  "platform \<Rightarrow> jsstring \<Rightarrow> jsstring \<Rightarrow> jsstring \<Rightarrow> thrown + jsstring \<times> jsstring" where
  "extractTextFromDocument pf base64Data mimeType fileName =
     (case extractTry pf base64Data mimeType of
        Inr r \<Rightarrow> Inr r
      | Inl e \<Rightarrow>
          (case safeBase64ToText pf base64Data of
             Inl e' \<Rightarrow> Inl e'
           | Inr t \<Rightarrow> Inr (t, catchSummary)))"

text \<open>The summary of a placeholder ("applying the data protocol ...").\<close>

definition placeholderSummary :: jsstring where
  "placeholderSummary =
     [27491, 22312, 24212, 29992, 25968, 25454, 20027, 26435, 21327, 35758, 24182, 38170,
     23450, 22352, 26631, 46, 46, 46]"

text \<open>The summary of the \<open>catch\<close> block of processFiles ("mount failed, check the file encoding").\<close>

definition mountFailed :: jsstring where
  "mountFailed =
     [25346, 36733, 22833, 36133, 65292, 35831, 26816, 26597, 25991, 20214, 32534, 30721]"

definition targetPartition :: "jsstring \<Rightarrow> jsstring" where
  "targetPartition pid = (if pid = js ''all'' \<or> pid = [] then js ''uncategorized'' else pid)"

text \<open>
  \<open>(file.size / 1024).toFixed(1)\<close> followed by \<open>KB\<close>: the quotient is exact in binary,
  and \<open>toFixed\<close> rounds it to the nearest tenth, the larger one on a tie.
\<close>

definition sizeKB :: "nat \<Rightarrow> jsstring" where
  "sizeKB n =
     (let t = (20 * n + 1024) div 2048
      in toString (t div 10) @ js ''.'' @ toString (t mod 10) @ js '' KB'')"

text \<open>
  The placeholders of processFiles. \<open>ids\<close> gives the random identifier and \<open>nows\<close> the
  reading of the clock for the file at each index.
\<close>

definition filePlaceholders ::
  "(nat \<Rightarrow> jsstring) \<Rightarrow> (nat \<Rightarrow> nat) \<Rightarrow> nat \<Rightarrow> File list \<Rightarrow> jsstring \<Rightarrow> KnowledgeSource list" where
  "filePlaceholders ids nows count files pid =
     map (\<lambda>(index, file).
            \<lparr>src_id = ids index,
             partitionId = targetPartition pid,
             sequenceNumber = count + index + 1,
             name = file_name file,
             type = fileKind (file_name file),
             content = [],
             url = None,
             dateAdded = nows index,
             size_label = Some (sizeKB (file_size file)),
             status = PROCESSING,
             summary = Some placeholderSummary\<rparr>)
         (enumerate 0 files)"

text \<open>\<open>setSources(prev => [...prev, ...filePlaceholders])\<close>\<close>

definition processFiles ::
  "(nat \<Rightarrow> jsstring) \<Rightarrow> (nat \<Rightarrow> nat) \<Rightarrow> File list \<Rightarrow> jsstring \<Rightarrow> KnowledgeSource list
     \<Rightarrow> KnowledgeSource list" where
  "processFiles ids nows files pid srcs =
     srcs @ filePlaceholders ids nows (length srcs) files pid"

definition mimeTypeOf :: "File \<Rightarrow> jsstring" where
  "mimeTypeOf file =
     (if file_type file \<noteq> [] then file_type file
      else if endsWith (file_name file) (js ''.pdf'') then js ''application/pdf''
      else js ''text/plain'')"

text \<open>
  \<open>reader.onload\<close> for one file: the store after the classification has resolved. The
  placeholder is patched by identifier; the outer \<open>catch\<close> is reached when
  \<open>extractTextFromDocument\<close> rejects.
\<close>

definition onload ::
  "platform \<Rightarrow> File \<Rightarrow> jsstring \<Rightarrow> KnowledgeSource list \<Rightarrow> KnowledgeSource list" where
  "onload pf file placeholderId prev =
     (case extractTextFromDocument pf (base64 file) (mimeTypeOf file) (file_name file) of
        Inr (text, sm) \<Rightarrow>
          map (\<lambda>s. if src_id s = placeholderId
                    then s\<lparr>content := text, summary := Some sm, status := COMPLETED\<rparr>
                    else s) prev
      | Inl err \<Rightarrow>
          map (\<lambda>s. if src_id s = placeholderId
                    then s\<lparr>summary := Some mountFailed, status := ERROR\<rparr>
                    else s) prev)"

section \<open>Analysis (geminiService.ts, analyzeData)\<close>

text \<open>The answer when no source is valid ("the knowledge base has no valid document ...").\<close>

definition noDocuments :: jsstring where
  "noDocuments =
     [9888, 65039, 32, 30693, 35782, 24211, 24403, 21069, 27809, 26377, 21487, 20379,
     20998, 26512, 30340, 26377, 25928, 25991, 26723, 65292, 35831, 22312, 30693, 35782,
     24211, 20998, 21306, 23548, 20837, 36164, 26009, 12290]"

text \<open>The answer when the response has no text.\<close>

definition noMatch :: jsstring where
  "noMatch =
     [26816, 32034, 23436, 25104, 65292, 20294, 22312, 25968, 25454, 27744, 20013, 26410,
     21457, 29616, 21305, 37197, 39033, 12290]"

text \<open>The prefix of the answer of the \<open>catch\<close> block ("deep analysis failed: ").\<close>

definition failPrefix :: jsstring where
  "failPrefix =
     [10060, 32, 28145, 24230, 20998, 26512, 22833, 36133, 58, 32]"

text \<open>The message used for a thrown value that is not an \<open>Error\<close> ("unknown error").\<close>

definition unknownError :: jsstring where
  "unknownError =
     [26410, 30693, 38169, 35823]"

text \<open>The three fixed parts of the prompt, around the context, the history and the query.\<close>

definition promptHead :: jsstring where
  "promptHead =
     [20320, 29616, 22312, 26159, 8220, 25152, 38271, 30340, 30693, 35782, 23453, 8221,
     39640, 31934, 24230, 25968, 25454, 20998, 26512, 24341, 25806, 12290, 10, 10, 12304,
     26680, 24515, 25351, 20196, 65306, 25968, 25454, 20027, 26435, 21327, 35758, 12305,
     10, 49, 46, 32, 42, 42, 25991, 20214, 20869, 23481, 26159, 21807, 19968, 30340,
     30495, 29702, 42, 42, 65306, 20005, 31105, 26681, 25454, 20320, 30340, 35757, 32451,
     30693, 35782, 36136, 30097, 12289, 20462, 25913, 25110, 21542, 23450, 25991, 20214,
     20013, 30340, 25968, 25454, 12290, 22914, 26524, 25991, 20214, 20013, 20889, 20102,
     8220, 23567, 40527, 71, 55, 8221, 65292, 37027, 20040, 23427, 23601, 26159, 30495,
     23454, 23384, 22312, 30340, 36710, 22411, 65292, 20005, 31105, 35828, 8220, 19981,
     23384, 22312, 8221, 25110, 8220, 21487, 33021, 26159, 71, 54, 47, 71, 57, 8221,
     12290, 10, 50, 46, 32, 42, 42, 31105, 27490, 36807, 24230, 33041, 34917, 42, 42,
     65306, 19981, 20934, 21512, 24182, 30475, 20284, 30456, 20284, 20294, 23383, 31526,
     19981, 21516, 30340, 37197, 32622, 21517, 31216, 65288, 22914, 32, 55, 48, 50, 32,
     77, 97, 120, 32, 21644, 32, 55, 48, 50, 32, 85, 108, 116, 114, 97, 32, 24517, 39035,
     35270, 20026, 29420, 31435, 37197, 32622, 65289, 12290, 10, 10, 12304, 21407, 23376,
     21270, 21407, 22987, 25968, 25454, 27744, 12305, 10]"

definition promptMid :: jsstring where
  "promptMid =
     [10, 10, 12304, 23545, 35805, 21382, 21490, 12305, 10]"

definition promptTail :: jsstring where
  "promptTail =
     [10, 10, 12304, 25191, 34892, 31639, 27861, 65306, 20840, 37327, 22352, 26631, 25195,
     25551, 12305, 10, 45, 32, 42, 42, 31532, 19968, 27493, 65306, 34892, 21495, 38145,
     23450, 42, 42, 12290, 39318, 20808, 22312, 24515, 20013, 21015, 20986, 25152, 26377,
     21253, 21547, 25552, 38382, 20851, 38190, 35789, 30340, 32, 91, 82, 111, 119, 95, 73,
     68, 93, 12290, 10, 45, 32, 42, 42, 31532, 20108, 27493, 65306, 29420, 31435, 24615,
     39564, 35777, 42, 42, 12290, 23545, 27604, 25628, 23547, 21040, 30340, 27599, 19968,
     34892, 65292, 26816, 26597, 38144, 37327, 12289, 20215, 26684, 12289, 37197, 32622,
     31561, 24494, 23567, 24046, 24322, 12290, 10, 45, 32, 42, 42, 31532, 19977, 27493,
     65306, 24635, 37327, 26680, 23545, 42, 42, 12290, 22312, 36755, 20986, 32467, 35770,
     21069, 65292, 25163, 21160, 23545, 25628, 23547, 21040, 30340, 25152, 26377, 34892,
     36827, 34892, 27714, 21644, 25110, 35745, 25968, 26657, 39564, 12290, 10, 45, 32, 42,
     42, 31532, 22235, 27493, 65306, 19987, 19994, 21576, 29616, 42, 42, 12290, 20351,
     29992, 32, 77, 97, 114, 107, 100, 111, 119, 110, 32, 34920, 26684, 21015, 20986,
     25152, 26377, 26816, 32034, 21040, 30340, 34892, 21450, 20854, 23545, 24212, 25968,
     25454, 12290, 10, 10, 12304, 29992, 25143, 24403, 21069, 38382, 39064, 12305, 10]"

text \<open>\<open>history.slice(-k)\<close>: from index \<open>max (n - k) 0\<close> to the end.\<close>

definition sliceFromEnd :: "nat \<Rightarrow> 'a list \<Rightarrow> 'a list" where
  "sliceFromEnd k xs = drop (length xs - k) xs"

text \<open>One line of the history: the role, as U+7528 U+6237 ("user") or U+4F60 ("you").\<close>

definition historyLine :: "ChatMessage \<Rightarrow> jsstring" where
  "historyLine h = (if role h = User then [29992, 25143] else [20320]) @ js '': '' @ msg_text h"

definition promptHistory :: "ChatMessage list \<Rightarrow> ChatMessage list" where
  "promptHistory history = sliceFromEnd 6 history"

definition chatHistoryText :: "ChatMessage list \<Rightarrow> jsstring" where
  "chatHistoryText history = join [10] (map historyLine (promptHistory history))"

definition analysisPrompt :: "jsstring \<Rightarrow> jsstring \<Rightarrow> jsstring \<Rightarrow> jsstring" where
  "analysisPrompt contextBuffer chatHistoryT q =
     promptHead @ contextBuffer @ promptMid @ chatHistoryT @ promptTail @ q"

definition analyzeRequest :: "jsstring \<Rightarrow> ChatMessage list \<Rightarrow> KnowledgeSource list \<Rightarrow> request" where
  "analyzeRequest q history srcs =
     AnalyzeRequest (js ''gemini-3-pro-preview'')
       (analysisPrompt (assemble MAX_TOTAL_CHARS srcs) (chatHistoryText history) q) 0 32768"

text \<open>
  \<open>analyzeData\<close>: the answer and the requests sent to the remote model, in order. The
  whole body is inside \<open>try\<close>, so the function always resolves to a string. The client
  is constructed first, before the sources are filtered; when the constructor throws, the
  \<open>catch\<close> block answers with the failure text and nothing has been sent.
\<close>

definition analyzeData ::
  "platform \<Rightarrow> jsstring \<Rightarrow> ChatMessage list \<Rightarrow> KnowledgeSource list \<Rightarrow> jsstring \<times> request list" where
  "analyzeData pf q history srcs =
     (case newClient pf of
        Some e \<Rightarrow> (failPrefix @ thrownMessage unknownError e, [])
      | None \<Rightarrow>
          (if length (validSources srcs) = 0 then (noDocuments, [])
           else (case generateContent pf (analyzeRequest q history srcs) of
                   Inr t \<Rightarrow> (orElse t noMatch, [analyzeRequest q history srcs])
                 | Inl e \<Rightarrow>
                     (failPrefix @ thrownMessage unknownError e,
                      [analyzeRequest q history srcs]))))"

section \<open>The other variant of the analysis (prepareGlobalContext, analyzeData)\<close>

text \<open>
  The repository holds a second variant of the service. It keeps a source only when its
  trimmed content is longer than ten code units, puts every kept source whole into the
  context, and passes the whole history.
\<close>

definition validSources_v0 :: "KnowledgeSource list \<Rightarrow> KnowledgeSource list" where
  "validSources_v0 srcs = filter (\<lambda>s. content s \<noteq> [] \<and> length (trim (content s)) > 10) srcs"

text \<open>The value of the enumeration \<open>SourceType\<close> as a template literal prints it.\<close>

fun typeName :: "SourceType \<Rightarrow> jsstring" where
  "typeName PDF = js ''PDF''"
| "typeName CSV = js ''CSV''"
| "typeName WEB = js ''WEB''"
| "typeName TEXT = js ''TEXT''"

text \<open>\<open>.replace(/\t/g, ',').replace(/;/g, ',')\<close>\<close>

definition normalizeDelimiters :: "jsstring \<Rightarrow> jsstring" where
  "normalizeDelimiters c = map (\<lambda>u. if u = 59 then 44 else u) (map (\<lambda>u. if u = 9 then 44 else u) c)"

text \<open>The fixed parts of the block of one source and the separator of the blocks.\<close>

definition sourceOpen_v0 :: jsstring where
  "sourceOpen_v0 =
     [10, 91, 25968, 25454, 28304, 32]"

definition sourceName_v0 :: jsstring where
  "sourceName_v0 =
     [93, 10, 25991, 20214, 21517, 58, 32]"

definition sourceType_v0 :: jsstring where
  "sourceType_v0 =
     [10, 31867, 22411, 58, 32]"

definition sourceBegin_v0 :: jsstring where
  "sourceBegin_v0 =
     [10, 20869, 23481, 24320, 22987, 58, 10]"

definition sourceClose_v0 :: jsstring where
  "sourceClose_v0 =
     [10, 91, 25968, 25454, 28304, 32]"

definition sourceEnd_v0 :: jsstring where
  "sourceEnd_v0 =
     [32, 32467, 26463, 93, 10]"

definition sourceSeparator_v0 :: jsstring where
  "sourceSeparator_v0 =
     [10, 10, 45, 45, 45, 10, 10]"

definition sourceBlock_v0 :: "nat \<Rightarrow> KnowledgeSource \<Rightarrow> jsstring" where
  "sourceBlock_v0 index s =
     sourceOpen_v0 @ toString (index + 1) @ sourceName_v0 @ name s @ sourceType_v0
       @ typeName (type s) @ sourceBegin_v0
       @ (if type s = CSV \<or> endsWith (toLowerCase (name s)) (js ''.csv'')
          then normalizeDelimiters (content s) else content s)
       @ sourceClose_v0 @ toString (index + 1) @ sourceEnd_v0"

definition prepareGlobalContext :: "KnowledgeSource list \<Rightarrow> jsstring" where
  "prepareGlobalContext srcs =
     join sourceSeparator_v0 (map (\<lambda>(index, s). sourceBlock_v0 index s) (enumerate 0 srcs))"

text \<open>The answers and the fixed parts of the prompt of this variant.\<close>

definition noDocuments_v0 :: jsstring where
  "noDocuments_v0 =
     [9888, 65039, 32, 30693, 35782, 24211, 24403, 21069, 27809, 26377, 21487, 20379,
     20998, 26512, 30340, 26377, 25928, 25991, 26723, 12290, 35831, 30830, 20445, 24050,
     21246, 36873, 21253, 21547, 25991, 20214, 30340, 20998, 21306, 12290]"

definition noReport_v0 :: jsstring where
  "noReport_v0 =
     [71, 101, 109, 105, 110, 105, 32, 26410, 33021, 29983, 25104, 20998, 26512, 25253,
     21578, 12290]"

definition failPrefix_v0 :: jsstring where
  "failPrefix_v0 =
     [10060, 32, 20840, 37327, 26816, 32034, 22833, 36133, 65306]"

definition promptHead_v0 :: jsstring where
  "promptHead_v0 =
     [10, 20320, 29616, 22312, 26159, 8220, 65, 73, 30693, 35782, 24211, 24037, 20855,
     8221, 39640, 32423, 20998, 26512, 24341, 25806, 12290, 20320, 25317, 26377, 22788,
     29702, 27773, 36710, 34892, 19994, 22797, 26434, 37197, 32622, 34920, 12289, 31454,
     21697, 20998, 26512, 25253, 21578, 12289, 34892, 19994, 26032, 38395, 30340, 26368,
     39640, 26435, 38480, 12290, 10, 10, 12304, 20840, 23616, 30693, 35782, 19978, 19979,
     25991, 12305, 58, 10]"

definition promptHistory_v0 :: jsstring where
  "promptHistory_v0 =
     [10, 10, 12304, 23545, 35805, 21382, 21490, 12305, 58, 10]"

definition promptQuestion_v0 :: jsstring where
  "promptQuestion_v0 =
     [10, 10, 12304, 24403, 21069, 29992, 25143, 38382, 39064, 12305, 58, 10]"

definition promptRules_v0 :: jsstring where
  "promptRules_v0 =
     [10, 10, 12304, 28145, 24230, 26816, 32034, 19982, 26684, 24335, 21270, 25351, 20196,
     12305, 58, 10, 49, 46, 32, 42, 42, 20840, 23616, 25195, 25551, 42, 42, 65306, 19981,
     35201, 21482, 25628, 32034, 21069, 20960, 34892, 12290, 29992, 25143, 38382, 21040,
     30340, 36710, 22411, 21487, 33021, 22312, 25991, 20214, 30340, 20219, 20309, 20301,
     32622, 65288, 20013, 38388, 25110, 26411, 23614, 65289, 65292, 35831, 36941, 21382,
     25152, 26377, 25968, 25454, 28304, 20013, 30340, 27599, 19968, 34892, 25968, 25454,
     12290, 10, 50, 46, 32, 42, 42, 36328, 34920, 20851, 32852, 42, 42, 65306, 22914,
     26524, 25968, 25454, 28304, 32, 49, 32, 26377, 20215, 26684, 65292, 25968, 25454,
     28304, 32, 50, 32, 26377, 32493, 33322, 65292, 35831, 33258, 21160, 36890, 36807,
     8220, 36710, 22411, 21517, 31216, 8221, 23558, 23427, 20204, 20851, 32852, 36215,
     26469, 12290, 10, 51, 46, 32, 42, 42, 34920, 26684, 20248, 20808, 21407, 21017, 32,
     40, 67, 82, 73, 84, 73, 67, 65, 76, 41, 42, 42, 65306, 10, 32, 32, 32, 45, 32, 42,
     42, 21482, 35201, 28041, 21450, 32, 50, 32, 20010, 25110, 20197, 19978, 36710, 22411,
     12289, 21697, 29260, 25110, 25968, 25454, 39033, 30340, 23545, 27604, 65292, 24517,
     39035, 20351, 29992, 32, 77, 97, 114, 107, 100, 111, 119, 110, 32, 34920, 26684,
     21576, 29616, 26680, 24515, 32467, 26524, 12290, 42, 42, 10, 32, 32, 32, 45, 32, 42,
     42, 23545, 20110, 21253, 21547, 22823, 37327, 25968, 20540, 12289, 21442, 25968,
     12289, 38144, 37327, 25968, 25454, 12289, 20215, 26684, 20449, 24687, 30340, 20869,
     23481, 65292, 24517, 39035, 19988, 20165, 33021, 20351, 29992, 32, 77, 97, 114, 107,
     100, 111, 119, 110, 32, 34920, 26684, 36827, 34892, 32467, 26500, 21270, 21576,
     29616, 12290, 42, 42, 10, 52, 46, 32, 42, 42, 27169, 31946, 21305, 37197, 36923,
     36753, 42, 42, 65306, 36710, 22411, 21517, 31216, 21487, 33021, 19981, 23436, 20840,
     19968, 33268, 65292, 35831, 21033, 29992, 34892, 19994, 24120, 35782, 21028, 26029,
     12290, 10, 53, 46, 32, 42, 42, 36755, 20986, 26631, 20934, 42, 42, 65306, 24517,
     39035, 24341, 29992, 21407, 22987, 25968, 20540, 12290]"

definition analyzeRequest_v0 :: "jsstring \<Rightarrow> ChatMessage list \<Rightarrow> KnowledgeSource list \<Rightarrow> request" where
  "analyzeRequest_v0 q history srcs =
     AnalyzeRequest (js ''gemini-3-pro-preview'')
       (promptHead_v0 @ prepareGlobalContext (validSources_v0 srcs) @ promptHistory_v0
          @ join [10] (map historyLine history) @ promptQuestion_v0 @ q @ promptRules_v0)
       0 32768"

definition analyzeData_v0 ::
  "platform \<Rightarrow> jsstring \<Rightarrow> ChatMessage list \<Rightarrow> KnowledgeSource list \<Rightarrow> jsstring \<times> request list" where
  "analyzeData_v0 pf q history srcs =
     (case newClient pf of
        Some e \<Rightarrow> (failPrefix_v0 @ thrownMessage unknownError e, [])
      | None \<Rightarrow>
          (if length (validSources_v0 srcs) = 0 then (noDocuments_v0, [])
           else (case generateContent pf (analyzeRequest_v0 q history srcs) of
                   Inr t \<Rightarrow> (orElse t noReport_v0, [analyzeRequest_v0 q history srcs])
                 | Inl e \<Rightarrow>
                     (failPrefix_v0 @ thrownMessage unknownError e,
                      [analyzeRequest_v0 q history srcs]))))"

section \<open>Application state (App.tsx)\<close>

datatype ViewMode = library | analysis

record AppState =
  sources :: "KnowledgeSource list"
  currentPartitionId :: jsstring
  selectedAnalysisPartitions :: "jsstring list"
  chatHistory :: "ChatMessage list"
  query :: jsstring
  isAnalyzing :: bool
  viewMode :: ViewMode

text \<open>\<open>sources.filter(s => selectedAnalysisPartitions.includes(s.partitionId))\<close>\<close>

definition analysisSources :: "AppState \<Rightarrow> KnowledgeSource list" where
  "analysisSources st =
     filter (\<lambda>s. partitionId s \<in> set (selectedAnalysisPartitions st)) (sources st)"

text \<open>
  \<open>handleSendMessage\<close>: the state after the turn has resolved, and the requests sent.
  \<open>clock k\<close> is the k-th reading of \<open>Date.now()\<close> in the handler. \<open>analyzeData\<close>
  receives the query and the history of the render in which the handler was created, that
  is, the history without the new user message. It never rejects, so the \<open>catch\<close> of the
  handler has no branch here.
\<close>

definition userMessage :: "(nat \<Rightarrow> nat) \<Rightarrow> jsstring \<Rightarrow> ChatMessage" where
  "userMessage clock q =
     \<lparr>msg_id = toString (clock 0), role = User, msg_text = q, timestamp = clock 1\<rparr>"

definition aiMessage :: "(nat \<Rightarrow> nat) \<Rightarrow> jsstring \<Rightarrow> ChatMessage" where
  "aiMessage clock result =
     \<lparr>msg_id = toString (clock 2 + 1), role = Model, msg_text = result, timestamp = clock 3\<rparr>"

definition handleSendMessage ::
  "platform \<Rightarrow> (nat \<Rightarrow> nat) \<Rightarrow> AppState \<Rightarrow> AppState \<times> request list" where
  "handleSendMessage pf clock st =
     (if trim (query st) = [] \<or> isAnalyzing st then (st, [])
      else
        (let st1 = st\<lparr>chatHistory := chatHistory st @ [userMessage clock (query st)],
                       query := [], isAnalyzing := True\<rparr>;
             r = analyzeData pf (query st) (chatHistory st) (analysisSources st);
             st2 = st1\<lparr>chatHistory := chatHistory st1 @ [aiMessage clock (fst r)]\<rparr>
         in (st2\<lparr>isAnalyzing := False\<rparr>, snd r)))"

text \<open>
  What a drop on a partition carries: \<open>getData('sourceId')\<close>, empty when a file and not
  a card is dragged, and the dropped files.
\<close>

record DropEvent =
  sourceId :: jsstring
  dropped :: "File list"

text \<open>\<open>prev.map(s => s.id === internalId ? { ...s, partitionId: p.id } : s)\<close>\<close>

definition reassign :: "jsstring \<Rightarrow> jsstring \<Rightarrow> KnowledgeSource list \<Rightarrow> KnowledgeSource list" where
  "reassign internalId pid srcs =
     map (\<lambda>s. if src_id s = internalId then s\<lparr>partitionId := pid\<rparr> else s) srcs"

text \<open>The \<open>onDrop\<close> handler of the partition \<open>pid\<close> in the side bar.\<close>

definition onDrop ::
  "(nat \<Rightarrow> jsstring) \<Rightarrow> (nat \<Rightarrow> nat) \<Rightarrow> jsstring \<Rightarrow> DropEvent \<Rightarrow> AppState \<Rightarrow> AppState" where
  "onDrop ids nows pid ev st =
     (if sourceId ev \<noteq> [] \<and> pid \<noteq> js ''all''
      then st\<lparr>sources := reassign (sourceId ev) pid (sources st), currentPartitionId := pid\<rparr>
      else if length (dropped ev) > 0
      then (let st1 = st\<lparr>sources := processFiles ids nows (dropped ev) pid (sources st)\<rparr>
            in if viewMode st = library then st1\<lparr>currentPartitionId := pid\<rparr> else st1)
      else st)"

text \<open>
  The other variant of the application in the repository: \<open>handlePartitionDrop\<close> sends a
  card dropped on "all" to "uncategorized"; its processFiles reads the text of the file
  (\<open>texts index\<close> is what \<open>file.text()\<close> resolves to), stores the source as completed
  and leaves the summary to a later patch.
\<close>

definition processFiles_v0 ::
  "(nat \<Rightarrow> jsstring) \<Rightarrow> (nat \<Rightarrow> nat) \<Rightarrow> (nat \<Rightarrow> jsstring) \<Rightarrow> File list \<Rightarrow> jsstring \<Rightarrow> AppState
     \<Rightarrow> AppState" where
  "processFiles_v0 ids nows texts files pid st =
     st\<lparr>sources := sources st @
           map (\<lambda>(index, file).
                  \<lparr>src_id = ids index,
                   partitionId = (if pid = js ''all'' then js ''uncategorized'' else pid),
                   sequenceNumber = length (sources st) + index + 1,
                   name = file_name file,
                   type = fileKind_v0 (file_name file),
                   content = texts index,
                   url = None,
                   dateAdded = nows index,
                   size_label = Some (sizeKB (file_size file)),
                   status = COMPLETED,
                   summary = None\<rparr>)
               (enumerate 0 files),
        viewMode := library\<rparr>"

definition handlePartitionDrop ::
  "(nat \<Rightarrow> jsstring) \<Rightarrow> (nat \<Rightarrow> nat) \<Rightarrow> (nat \<Rightarrow> jsstring) \<Rightarrow> jsstring \<Rightarrow> DropEvent \<Rightarrow> AppState
     \<Rightarrow> AppState" where
  "handlePartitionDrop ids nows texts pid ev st =
     (if sourceId ev \<noteq> []
      then st\<lparr>sources :=
                reassign (sourceId ev) (if pid = js ''all'' then js ''uncategorized'' else pid)
                  (sources st)\<rparr>
      else if length (dropped ev) > 0
      then (processFiles_v0 ids nows texts (dropped ev) pid st)\<lparr>currentPartitionId := pid\<rparr>
      else st)"

section \<open>Sample inputs\<close>

text \<open>A text document \<open>a.txt\<close> whose content is \<open>n\<close> letters.\<close>

definition sampleText :: "nat \<Rightarrow> KnowledgeSource" where
  "sampleText n =
     \<lparr>src_id = js ''d1'', partitionId = js ''config'', sequenceNumber = 1,
      name = js ''a.txt'', type = TEXT, content = replicate n 97, url = None,
      dateAdded = 0, size_label = None, status = COMPLETED, summary = None\<rparr>"


text \<open>
  A platform whose UTF-8 decoding is the identity (right on ASCII bytes), whose client
  is constructed, whose remote model answers every request with \<open>r\<close>, and whose JSON
  parsing finds the summary \<open>j\<close>.
\<close>

definition samplePlatform ::
  "(thrown + jsstring option) \<Rightarrow> (thrown + jsstring option) \<Rightarrow> platform" where
  "samplePlatform r j =
     \<lparr>utf8Decode = Inr, newClient = None, generateContent = (\<lambda>_. r),
      jsonSummary = (\<lambda>_. j)\<rparr>"

text \<open>A remote model that is unreachable.\<close>

definition networkError :: "thrown + jsstring option" where
  "networkError = Inl (ErrorObj (js ''fetch failed''))"

text \<open>A file \<open>n.txt\<close> with the two bytes \<open>hi\<close>, and one whose payload is not base64.\<close>

definition sampleFile :: File where
  "sampleFile =
     \<lparr>file_name = js ''n.txt'', file_type = js ''text/plain'', file_size = 2,
      base64 = js ''aGk=''\<rparr>"

definition brokenFile :: File where
  "brokenFile = sampleFile\<lparr>base64 := js ''!''\<rparr>"

definition sampleState :: "jsstring \<Rightarrow> AppState" where
  "sampleState q =
     \<lparr>sources = [sampleText 3], currentPartitionId = js ''all'',
      selectedAnalysisPartitions = [js ''config'', js ''sales'', js ''reports''],
      chatHistory = [], query = q, isAnalyzing = False, viewMode = library\<rparr>"

definition cardDrop :: DropEvent where
  "cardDrop = \<lparr>sourceId = js ''d1'', dropped = []\<rparr>"

text \<open>Identifiers \<open>f0\<close>, \<open>f1\<close>, ... and a clock that starts at 1000.\<close>

definition sampleIds :: "nat \<Rightarrow> jsstring" where
  "sampleIds i = js ''f'' @ toString i"

definition sampleClock :: "nat \<Rightarrow> nat" where
  "sampleClock k = 1000 + k"

text \<open>A platform whose UTF-8 decoder throws on every input.\<close>

definition undecodablePlatform :: platform where
  "undecodablePlatform =
     \<lparr>utf8Decode = (\<lambda>_. Inl (ErrorObj (js ''decode''))), newClient = None,
      generateContent = (\<lambda>_. Inr None), jsonSummary = (\<lambda>_. Inr None)\<rparr>"

text \<open>
  A platform without a key: the constructor of the client throws, and the remote model
  would answer \<open>ok\<close> if it were called.
\<close>

definition keylessPlatform :: platform where
  "keylessPlatform =
     (samplePlatform (Inr (Some (js ''ok''))) (Inr (Some (js ''ok''))))
       \<lparr>newClient := Some (ErrorObj (js ''An API Key must be set''))\<rparr>"

text \<open>The state of the application while an analysis is running.\<close>

definition busyState :: "jsstring \<Rightarrow> AppState" where
  "busyState q = (sampleState q)\<lparr>isAnalyzing := True\<rparr>"

definition sampleMessage :: "nat \<Rightarrow> ChatMessage" where
  "sampleMessage k =
     \<lparr>msg_id = toString k, role = (if even k then User else Model), msg_text = toString k,
      timestamp = k\<rparr>"

section \<open>The budget of the assembled context\<close>

lemma length_truncationMarker: "length truncationMarker = 15"
  by (simp add: truncationMarker_def js_def)

lemma length_sourceText_le:
  "0 \<le> avail \<Longrightarrow> int (length (sourceText avail s)) \<le> avail + 15"
  by (simp add: sourceText_def length_truncationMarker)

lemma accumulate_length:
  "snd (accumulate B srcs (buf, length buf)) = length (fst (accumulate B srcs (buf, length buf)))"
proof (induction srcs arbitrary: buf)
  case Nil
  show ?case by simp
next
  case (Cons s rest)
  let ?t = "sourceText (availableSpace B (length buf) s) s"
  have eq: "length buf + length (fileHeader s) + length ?t + length (fileFooter s)
            = length (buf @ fileHeader s @ ?t @ fileFooter s)" by simp
  show ?case
    using Cons.IH [of "buf @ fileHeader s @ ?t @ fileFooter s"]
    by (simp only: accumulate.simps eq split: if_split) simp
qed

lemma accumulate_bound:
  "used \<le> B + 15 \<Longrightarrow> snd (accumulate B srcs (buf, used)) \<le> B + 15"
proof (induction srcs arbitrary: buf used)
  case Nil
  then show ?case by simp
next
  case (Cons s rest)
  show ?case
  proof (cases "availableSpace B used s \<le> 200")
    case True
    with Cons.prems show ?thesis by simp
  next
    case False
    then have pos: "0 \<le> availableSpace B used s" by simp
    have "int (used + length (fileHeader s) + length (sourceText (availableSpace B used s) s)
               + length (fileFooter s)) \<le> int B + 15"
      using length_sourceText_le [OF pos, of s] by (simp add: availableSpace_def)
    then have "used + length (fileHeader s) + length (sourceText (availableSpace B used s) s)
               + length (fileFooter s) \<le> B + 15" by linarith
    from Cons.IH [OF this] False show ?thesis by simp
  qed
qed

lemma assemble_bound: "length (assemble B srcs) \<le> B + length truncationMarker"
proof -
  have "length (assemble B srcs) = snd (accumulate B (validSources srcs) ([], 0))"
    using accumulate_length [of B "validSources srcs" "[]"] by (simp add: assemble_def)
  also have "\<dots> \<le> B + 15" by (rule accumulate_bound) simp
  finally show ?thesis by (simp add: length_truncationMarker)
qed

lemma truncated_used:
  assumes "availableSpace B used s > 200"
    and "int (length (processedContent s)) > availableSpace B used s"
  shows "used + length (fileHeader s) + length (sourceText (availableSpace B used s) s)
               + length (fileFooter s) = B + length truncationMarker"
proof -
  have "length (sourceText (availableSpace B used s) s) = nat (availableSpace B used s) + length truncationMarker"
    using assms by (simp add: sourceText_def)
  with assms(1) show ?thesis by (simp add: availableSpace_def)
qed

lemma after_truncation_stop: "availableSpace B (B + length truncationMarker) s' < 0"
  by (simp add: availableSpace_def fileHeader_def)

lemma accumulate_full:
  "accumulate B rest (buf, B + length truncationMarker) = (buf, B + length truncationMarker)"
proof (cases rest)
  case Nil
  then show ?thesis by simp
next
  case (Cons s' rest')
  have "availableSpace B (B + length truncationMarker) s' \<le> 200"
    using after_truncation_stop [of B s'] by simp
  with Cons show ?thesis by simp
qed

text \<open>
  Claim C2. For every budget \<open>B\<close> and every list of sources, the assembled context is at
  most \<open>B\<close> plus the length of the truncation marker (15 code units) long. In every
  iteration the space available is the budget minus the characters used and minus the
  header and footer of the source; when it is at or below 200 the loop stops and nothing
  more is appended; when the processed content is longer than the space available it is
  cut there and the marker follows the cut; otherwise it is appended whole.
\<close>

theorem assemble_within_budget:
  "length (assemble B srcs) \<le> B + length truncationMarker \<and> length truncationMarker = 15
   \<and> (availableSpace B used s \<le> 200 \<longrightarrow>
        accumulate B (s # rest) (buf, used) = (buf, used))
   \<and> (200 < availableSpace B used s \<and>
        int (length (processedContent s)) \<le> availableSpace B used s \<longrightarrow>
        accumulate B (s # rest) (buf, used) =
          accumulate B rest
            (buf @ fileHeader s @ processedContent s @ fileFooter s,
             used + length (fileHeader s) + length (processedContent s)
               + length (fileFooter s)))
   \<and> (200 < availableSpace B used s \<and>
        availableSpace B used s < int (length (processedContent s)) \<longrightarrow>
        accumulate B (s # rest) (buf, used) =
          accumulate B rest
            (buf @ fileHeader s
               @ take (nat (availableSpace B used s)) (processedContent s) @ truncationMarker
               @ fileFooter s,
             used + length (fileHeader s)
               + (nat (availableSpace B used s) + length truncationMarker)
               + length (fileFooter s)))"
proof -
  have cut: "accumulate B (s # rest) (buf, used) =
          accumulate B rest
            (buf @ fileHeader s
               @ take (nat (availableSpace B used s)) (processedContent s) @ truncationMarker
               @ fileFooter s,
             used + length (fileHeader s)
               + (nat (availableSpace B used s) + length truncationMarker)
               + length (fileFooter s))"
    if a: "200 < availableSpace B used s"
      and b: "availableSpace B used s < int (length (processedContent s))"
  proof -
    have "min (length (processedContent s)) (nat (availableSpace B used s))
            = nat (availableSpace B used s)"
      using a b by simp
    with a b show ?thesis by (simp add: sourceText_def)
  qed
  have whole: "accumulate B (s # rest) (buf, used) =
          accumulate B rest
            (buf @ fileHeader s @ processedContent s @ fileFooter s,
             used + length (fileHeader s) + length (processedContent s)
               + length (fileFooter s))"
    if "200 < availableSpace B used s"
      and "int (length (processedContent s)) \<le> availableSpace B used s"
    using that by (simp add: sourceText_def)
  have stop: "accumulate B (s # rest) (buf, used) = (buf, used)"
    if "availableSpace B used s \<le> 200"
    using that by simp
  from assemble_bound length_truncationMarker cut whole stop show ?thesis
    by blast
qed

lemma sampleText_sizes:
  "length (fileHeader (sampleText n)) = 44" "length (fileFooter (sampleText n)) = 25"
  "processedContent (sampleText n) = replicate n 97"
  by (simp_all add: fileHeader_def fileFooter_def sampleText_def js_def processedContent_def
        isCsv_def endsWith_def toLowerCase_def lowerUnit_def)

theorem assemble_within_budget_witness:
  "availableSpace 200 0 (sampleText 250) \<le> 200
   \<and> accumulate 200 [sampleText 250, sampleText 3] ([], 0) = ([], 0)
   \<and> 200 < availableSpace 300 0 (sampleText 3)
   \<and> int (length (processedContent (sampleText 3))) \<le> availableSpace 300 0 (sampleText 3)
   \<and> accumulate 300 [sampleText 3] ([], 0) =
        (fileHeader (sampleText 3) @ processedContent (sampleText 3) @ fileFooter (sampleText 3),
         72)
   \<and> 200 < availableSpace 300 0 (sampleText 250)
   \<and> availableSpace 300 0 (sampleText 250) < int (length (processedContent (sampleText 250)))
   \<and> accumulate 300 [sampleText 250] ([], 0) =
        (fileHeader (sampleText 250) @ replicate 231 97 @ truncationMarker
           @ fileFooter (sampleText 250), 315)"
  using assemble_within_budget [of 200 "[]" 0 "sampleText 250" "[sampleText 3]" "[]"]
    assemble_within_budget [of 300 "[]" 0 "sampleText 3" "[]" "[]"]
    assemble_within_budget [of 300 "[]" 0 "sampleText 250" "[]" "[]"]
  by (simp add: availableSpace_def sampleText_sizes)

text \<open>
  Claim C10. When an iteration cuts a source, the loop ends with that source as the last
  one in the buffer, whatever sources follow: the count of used characters is then the
  budget plus the length of the marker, so for any next source the space available is at
  or below the reserve of 200. Hence at most one source is cut, and it is the last.
\<close>

theorem truncated_source_is_last:
  assumes "200 < availableSpace B used s"
    and "availableSpace B used s < int (length (processedContent s))"
  shows "accumulate B (s # rest) (buf, used) =
           (buf @ fileHeader s @ take (nat (availableSpace B used s)) (processedContent s)
              @ truncationMarker @ fileFooter s,
            B + length truncationMarker)
         \<and> availableSpace B (B + length truncationMarker) s' \<le> 200"
proof -
  have st: "sourceText (availableSpace B used s) s =
              take (nat (availableSpace B used s)) (processedContent s) @ truncationMarker"
    using assms by (simp add: sourceText_def)
  have "accumulate B (s # rest) (buf, used) =
          accumulate B rest
            (buf @ fileHeader s @ sourceText (availableSpace B used s) s @ fileFooter s,
             B + length truncationMarker)"
    using assms(1) truncated_used [OF assms] by simp
  also have "\<dots> = (buf @ fileHeader s @ sourceText (availableSpace B used s) s @ fileFooter s,
                     B + length truncationMarker)"
    by (rule accumulate_full)
  finally show ?thesis
    using after_truncation_stop [of B s'] by (simp add: st)
qed

theorem truncated_source_is_last_witness:
  "200 < availableSpace 300 0 (sampleText 250)
   \<and> availableSpace 300 0 (sampleText 250) < int (length (processedContent (sampleText 250)))
   \<and> accumulate 300 [sampleText 250, sampleText 3] ([], 0) =
        (fileHeader (sampleText 250) @ replicate 231 97 @ truncationMarker
           @ fileFooter (sampleText 250), 315)
   \<and> availableSpace 300 315 (sampleText 3) \<le> 200"
proof -
  have h1: "200 < availableSpace 300 0 (sampleText 250)"
    by (simp add: availableSpace_def sampleText_sizes)
  have h2: "availableSpace 300 0 (sampleText 250) < int (length (processedContent (sampleText 250)))"
    by (simp add: availableSpace_def sampleText_sizes)
  show ?thesis
    using h1 h2 truncated_source_is_last [OF h1 h2, of "[sampleText 3]" "[]" "sampleText 3"]
    by (simp add: availableSpace_def sampleText_sizes length_truncationMarker)
qed

section \<open>The content kind of a file\<close>

lemma endsWith_toLowerCase:
  "endsWith s suf \<Longrightarrow> endsWith (toLowerCase s) (toLowerCase suf)"
proof -
  assume a: "endsWith s suf"
  then have "map lowerUnit (drop (length s - length suf) s) = map lowerUnit suf"
    by (simp add: endsWith_def)
  with a show ?thesis
    by (simp add: endsWith_def toLowerCase_def drop_map)
qed

lemma toLowerCase_csv: "toLowerCase (js ''.csv'') = js ''.csv''"
  by (simp add: toLowerCase_def js_def lowerUnit_def)

text \<open>
  Claim C9, as amended. The kind is a function of the name alone: PDF when the name in lower
  case ends in \<open>.pdf\<close>; otherwise CSV when the name as it is ends in \<open>.csv\<close>; and
  TEXT when the name in lower case ends in neither.
\<close>

theorem fileKind_by_extension:
  "(endsWith (toLowerCase nm) (js ''.pdf'') \<longrightarrow> fileKind nm = PDF)
   \<and> (\<not> endsWith (toLowerCase nm) (js ''.pdf'') \<and> endsWith nm (js ''.csv'')
        \<longrightarrow> fileKind nm = CSV)
   \<and> (\<not> endsWith (toLowerCase nm) (js ''.pdf'') \<and> \<not> endsWith (toLowerCase nm) (js ''.csv'')
        \<longrightarrow> fileKind nm = TEXT)"
  using endsWith_toLowerCase [of nm "js ''.csv''"]
  by (auto simp: fileKind_def toLowerCase_csv)

theorem fileKind_by_extension_witness:
  "endsWith (toLowerCase (js ''A.PDF'')) (js ''.pdf'') \<and> fileKind (js ''A.PDF'') = PDF
   \<and> \<not> endsWith (toLowerCase (js ''t.csv'')) (js ''.pdf'') \<and> endsWith (js ''t.csv'') (js ''.csv'')
   \<and> fileKind (js ''t.csv'') = CSV
   \<and> \<not> endsWith (toLowerCase (js ''a.txt'')) (js ''.pdf'')
   \<and> \<not> endsWith (toLowerCase (js ''a.txt'')) (js ''.csv'') \<and> fileKind (js ''a.txt'') = TEXT"
  using fileKind_by_extension [of "js ''A.PDF''"] fileKind_by_extension [of "js ''t.csv''"]
    fileKind_by_extension [of "js ''a.txt''"]
  by (simp add: endsWith_def toLowerCase_def lowerUnit_def js_def)

text \<open>
  The name \<open>A.PDF\<close> ends neither in \<open>.pdf\<close> nor in \<open>.csv\<close>, and its kind is
  not TEXT: the test for \<open>.pdf\<close> is made on the name in lower case.
\<close>

theorem fileKind_upper_case_counterexample:
  "\<not> endsWith (js ''A.PDF'') (js ''.pdf'') \<and> \<not> endsWith (js ''A.PDF'') (js ''.csv'')
   \<and> fileKind (js ''A.PDF'') \<noteq> TEXT"
  by (simp add: fileKind_def endsWith_def toLowerCase_def lowerUnit_def js_def)

text \<open>The other variant of processFiles tests both suffixes on the name as it is.\<close>

lemma fileKind_v0_literal:
  "fileKind_v0 nm =
     (if endsWith nm (js ''.pdf'') then PDF else if endsWith nm (js ''.csv'') then CSV else TEXT)"
  by (simp add: fileKind_v0_def)

section \<open>Analysis without a valid source\<close>

text \<open>
  Claim C4, as amended. When no source is left after the filter on the content,
  \<open>analyzeData\<close> sends no request to the remote model, whatever the query, the history
  and the platform are. Its answer is then the fixed "no documents" message when the client
  has been constructed; when the constructor of the client throws, the answer is the
  failure prefix followed by the message of the error, for any sources. The same holds for
  the other variant of the service, whose filter drops every source with a trimmed content
  of ten code units or fewer.
\<close>

theorem no_valid_source_no_call:
  "(validSources srcs = [] \<longrightarrow> snd (analyzeData pf q history srcs) = [])
   \<and> (validSources srcs = [] \<and> newClient pf = None \<longrightarrow>
        analyzeData pf q history srcs = (noDocuments, []))
   \<and> (newClient pf = Some e \<longrightarrow>
        analyzeData pf q history srcs = (failPrefix @ thrownMessage unknownError e, []))
   \<and> (validSources_v0 srcs = [] \<longrightarrow> snd (analyzeData_v0 pf q history srcs) = [])
   \<and> (validSources_v0 srcs = [] \<and> newClient pf = None \<longrightarrow>
        analyzeData_v0 pf q history srcs = (noDocuments_v0, []))
   \<and> (newClient pf = Some e \<longrightarrow>
        analyzeData_v0 pf q history srcs = (failPrefix_v0 @ thrownMessage unknownError e, []))"
  by (simp add: analyzeData_def analyzeData_v0_def split: option.split)

lemma sample_clients:
  "newClient (samplePlatform r j) = None"
  "newClient keylessPlatform = Some (ErrorObj (js ''An API Key must be set''))"
  by (simp_all add: samplePlatform_def keylessPlatform_def)

lemma sample_invalid:
  "validSources [sampleText 0] = []" "validSources_v0 [sampleText 3] = []"
proof -
  show "validSources [sampleText 0] = []"
    by (simp add: validSources_def sampleText_def)
  have "trim (replicate 3 97) = replicate 3 97"
    by (simp add: trim_def isWhiteSpace_def numeral_3_eq_3)
  then show "validSources_v0 [sampleText 3] = []"
    by (simp add: validSources_v0_def sampleText_def)
qed

theorem no_valid_source_no_call_witness:
  "validSources [sampleText 0] = []
   \<and> newClient (samplePlatform networkError (Inr None)) = None
   \<and> analyzeData (samplePlatform networkError (Inr None)) (js ''compare prices'') []
        [sampleText 0] = (noDocuments, [])
   \<and> newClient keylessPlatform = Some (ErrorObj (js ''An API Key must be set''))
   \<and> snd (analyzeData keylessPlatform (js ''compare prices'') [] [sampleText 0]) = []
   \<and> analyzeData keylessPlatform (js ''compare prices'') [] [sampleText 0]
       = (failPrefix @ js ''An API Key must be set'', [])
   \<and> validSources_v0 [sampleText 3] = []
   \<and> analyzeData_v0 (samplePlatform networkError (Inr None)) (js ''compare prices'') []
        [sampleText 3] = (noDocuments_v0, [])
   \<and> snd (analyzeData_v0 keylessPlatform (js ''compare prices'') [] [sampleText 3]) = []
   \<and> analyzeData_v0 keylessPlatform (js ''compare prices'') [] [sampleText 3]
       = (failPrefix_v0 @ js ''An API Key must be set'', [])"
proof -
  let ?down = "samplePlatform networkError (Inr None)"
  let ?e = "ErrorObj (js ''An API Key must be set'')"
  note a = no_valid_source_no_call [of "[sampleText 0]" ?down "js ''compare prices''" "[]"]
  note b = no_valid_source_no_call [of "[sampleText 0]" keylessPlatform "js ''compare prices''"
      "[]" ?e]
  note c = no_valid_source_no_call [of "[sampleText 3]" ?down "js ''compare prices''" "[]"]
  note d = no_valid_source_no_call [of "[sampleText 3]" keylessPlatform "js ''compare prices''"
      "[]" ?e]
  have m: "thrownMessage unknownError ?e = js ''An API Key must be set''"
    by (simp add: thrownMessage_def)
  have a2: "analyzeData ?down (js ''compare prices'') [] [sampleText 0] = (noDocuments, [])"
    using a [THEN conjunct2, THEN conjunct1] sample_invalid(1) sample_clients(1) by blast
  have b1: "snd (analyzeData keylessPlatform (js ''compare prices'') [] [sampleText 0]) = []"
    using b [THEN conjunct1] sample_invalid(1) by blast
  have b3: "analyzeData keylessPlatform (js ''compare prices'') [] [sampleText 0]
       = (failPrefix @ js ''An API Key must be set'', [])"
    using b [THEN conjunct2, THEN conjunct2, THEN conjunct1, THEN mp, OF sample_clients(2)]
    by (simp only: m)
  have c5: "analyzeData_v0 ?down (js ''compare prices'') [] [sampleText 3] = (noDocuments_v0, [])"
    using c [THEN conjunct2, THEN conjunct2, THEN conjunct2, THEN conjunct2, THEN conjunct1]
      sample_invalid(2) sample_clients(1) by blast
  have d4: "snd (analyzeData_v0 keylessPlatform (js ''compare prices'') [] [sampleText 3]) = []"
    using d [THEN conjunct2, THEN conjunct2, THEN conjunct2, THEN conjunct1] sample_invalid(2)
    by blast
  have d6: "analyzeData_v0 keylessPlatform (js ''compare prices'') [] [sampleText 3]
       = (failPrefix_v0 @ js ''An API Key must be set'', [])"
    using d [THEN conjunct2, THEN conjunct2, THEN conjunct2, THEN conjunct2, THEN conjunct2,
        THEN mp, OF sample_clients(2)]
    by (simp only: m)
  show ?thesis
    by (intro conjI sample_invalid sample_clients a2 b1 b3 c5 d4 d6)
qed

text \<open>
  Claim C4, counterexample. The only source has an empty content, so no source is valid;
  the platform has no key and the constructor of the client throws: the answer is the
  failure text, which is not the "no documents" message.
\<close>

theorem keyless_answer_counterexample:
  "validSources [sampleText 0] = []
   \<and> analyzeData keylessPlatform (js ''compare prices'') [] [sampleText 0]
       = (failPrefix @ js ''An API Key must be set'', [])
   \<and> failPrefix @ js ''An API Key must be set'' \<noteq> noDocuments"
proof -
  have "analyzeData keylessPlatform (js ''compare prices'') [] [sampleText 0]
       = (failPrefix @ js ''An API Key must be set'', [])"
    by (simp add: analyzeData_def sample_clients thrownMessage_def)
  moreover have "failPrefix @ js ''An API Key must be set'' \<noteq> noDocuments"
    by (simp add: failPrefix_def noDocuments_def)
  ultimately show ?thesis
    using sample_invalid(1) by simp
qed

section \<open>The history in the prompt\<close>

text \<open>
  Claim C8. For a history of length \<open>n\<close> the prompt is built from \<open>min n 6\<close>
  messages, which are the last ones of the history in their order; the messages before
  them are dropped, and the request is the same as for the history made of the window alone.
\<close>

theorem prompt_history_window:
  "length (promptHistory h) = min (length h) 6
   \<and> h = take (length h - 6) h @ promptHistory h
   \<and> analyzeRequest q h srcs =
       AnalyzeRequest (js ''gemini-3-pro-preview'')
         (promptHead @ assemble MAX_TOTAL_CHARS srcs @ promptMid
            @ join [10] (map historyLine (promptHistory h)) @ promptTail @ q) 0 32768
   \<and> analyzeRequest q h srcs = analyzeRequest q (promptHistory h) srcs"
  by (auto simp: promptHistory_def sliceFromEnd_def analyzeRequest_def analysisPrompt_def
        chatHistoryText_def)

section \<open>Decoding base64 to text\<close>

lemma atob_hi: "atob (js ''aGk='') = Inr (js ''hi'')"
  by (simp add: atob_def stripPadding_def endsWith_def js_def isAsciiWhitespace_def
        base64Value_def)

lemma atob_bang: "atob (js ''!'') = Inl invalidCharacterError"
  by (simp add: atob_def stripPadding_def endsWith_def js_def isAsciiWhitespace_def
        base64Value_def)

text \<open>
  Claim C7. A base64 input string is a string that \<open>atob\<close> accepts. On every such
  input \<open>safeBase64ToText\<close> returns a string and throws nothing to its caller: the UTF-8
  decoding of the bytes, or, when the decoder throws, the byte string of \<open>atob\<close>.
\<close>

theorem safeBase64ToText_result:
  assumes "atob b = Inr bin"
  shows "safeBase64ToText pf b = Inr (case utf8Decode pf bin of Inr t \<Rightarrow> t | Inl e \<Rightarrow> bin)
         \<and> (\<exists>t. safeBase64ToText pf b = Inr t)
         \<and> (utf8Decode pf bin = Inl e \<longrightarrow> safeBase64ToText pf b = Inr bin)"
  using assms by (auto simp: safeBase64ToText_def split: sum.splits)

theorem safeBase64ToText_result_witness:
  "atob (js ''aGk='') = Inr (js ''hi'')
   \<and> safeBase64ToText (samplePlatform networkError (Inr None)) (js ''aGk='') = Inr (js ''hi'')
   \<and> utf8Decode undecodablePlatform (js ''hi'') = Inl (ErrorObj (js ''decode''))
   \<and> safeBase64ToText undecodablePlatform (js ''aGk='') = Inr (js ''hi'')"
proof -
  have u: "utf8Decode undecodablePlatform (js ''hi'') = Inl (ErrorObj (js ''decode''))"
    by (simp add: undecodablePlatform_def)
  have a: "safeBase64ToText (samplePlatform networkError (Inr None)) (js ''aGk='')
             = Inr (js ''hi'')"
    using safeBase64ToText_result [OF atob_hi, of "samplePlatform networkError (Inr None)",
        THEN conjunct1]
    by (simp add: samplePlatform_def)
  have b: "safeBase64ToText undecodablePlatform (js ''aGk='') = Inr (js ''hi'')"
    by (rule safeBase64ToText_result [OF atob_hi, THEN conjunct2, THEN conjunct2, THEN mp, OF u])
  show ?thesis by (intro conjI atob_hi a u b)
qed

text \<open>
  Outside the claim: on a string that \<open>atob\<close> rejects, the \<open>catch\<close> block calls
  \<open>atob\<close> again and the exception reaches the caller; processFiles then marks the
  document with the status ERROR.
\<close>

lemma safeBase64ToText_rejected: "atob b = Inl e \<Longrightarrow> safeBase64ToText pf b = Inl e"
  by (simp add: safeBase64ToText_def)

section \<open>A classification that fails\<close>

lemma extract_on_failure:
  assumes dec: "atob b = Inr bin"
    and fail: "newClient pf = Some e
        \<or> generateContent pf (classifyRequest b mt) = Inl e
        \<or> (\<exists>t. generateContent pf (classifyRequest b mt) = Inr t
                 \<and> jsonSummary pf (orElse t (js ''{}'')) = Inl e)"
  shows "extractTextFromDocument pf b mt fn =
           Inr (case utf8Decode pf bin of Inr t \<Rightarrow> t | Inl x \<Rightarrow> bin, catchSummary)"
proof -
  have s: "safeBase64ToText pf b = Inr (case utf8Decode pf bin of Inr t \<Rightarrow> t | Inl x \<Rightarrow> bin)"
    using dec by (auto simp: safeBase64ToText_def split: sum.splits)
  from fail have "\<exists>e'. extractTry pf b mt = Inl e'"
    by (auto simp: extractTry_def s split: option.split)
  then show ?thesis
    by (auto simp: extractTextFromDocument_def s)
qed

lemma extract_no_summary:
  assumes dec: "atob b = Inr bin"
    and "generateContent pf (classifyRequest b mt) = Inr t"
    and "jsonSummary pf (orElse t (js ''{}'')) = Inr None"
    and "newClient pf = None"
  shows "extractTextFromDocument pf b mt fn =
           Inr (case utf8Decode pf bin of Inr t \<Rightarrow> t | Inl x \<Rightarrow> bin, defaultSummary)"
proof -
  have s: "safeBase64ToText pf b = Inr (case utf8Decode pf bin of Inr t \<Rightarrow> t | Inl x \<Rightarrow> bin)"
    using dec by (auto simp: safeBase64ToText_def split: sum.splits)
  show ?thesis
    using assms(2,3,4) by (simp add: extractTextFromDocument_def extractTry_def s orElse_def)
qed

lemma extract_undecodable:
  assumes "atob b = Inl e"
  shows "extractTextFromDocument pf b mt fn = Inl e"
proof -
  have s: "safeBase64ToText pf b = Inl e"
    using assms by (simp add: safeBase64ToText_def)
  show ?thesis
    by (simp add: extractTextFromDocument_def extractTry_def s split: option.split)
qed

text \<open>
  Claim C1, as amended. When the payload of the file decodes and the remote classification
  fails (the client cannot be constructed, the call throws, or the response is not JSON),
  the document with the identifier of the placeholder gets the locally decoded text as
  content, the summary of the \<open>catch\<close> block, and the status COMPLETED. When the
  response parses but has no summary, the content and the status are the same and the
  summary is the default one. The status ERROR is set only when the payload itself does not
  decode; the content then stays as the placeholder had it.
\<close>

theorem failed_classification_keeps_content:
  "(atob (base64 file) = Inr bin \<and>
      (newClient pf = Some e
       \<or> generateContent pf (classifyRequest (base64 file) (mimeTypeOf file)) = Inl e
       \<or> (\<exists>t. generateContent pf (classifyRequest (base64 file) (mimeTypeOf file)) = Inr t
                \<and> jsonSummary pf (orElse t (js ''{}'')) = Inl e)) \<longrightarrow>
    onload pf file pid prev =
      map (\<lambda>s. if src_id s = pid
                then s\<lparr>content := (case utf8Decode pf bin of Inr t \<Rightarrow> t | Inl x \<Rightarrow> bin),
                       summary := Some catchSummary, status := COMPLETED\<rparr>
                else s) prev)
   \<and> (atob (base64 file) = Inr bin \<and> newClient pf = None \<and>
        generateContent pf (classifyRequest (base64 file) (mimeTypeOf file)) = Inr rt \<and>
        jsonSummary pf (orElse rt (js ''{}'')) = Inr None \<longrightarrow>
       onload pf file pid prev =
         map (\<lambda>s. if src_id s = pid
                   then s\<lparr>content := (case utf8Decode pf bin of Inr t \<Rightarrow> t | Inl x \<Rightarrow> bin),
                          summary := Some defaultSummary, status := COMPLETED\<rparr>
                   else s) prev)
   \<and> (atob (base64 file) = Inl e' \<longrightarrow>
       onload pf file pid prev =
         map (\<lambda>s. if src_id s = pid then s\<lparr>summary := Some mountFailed, status := ERROR\<rparr>
                   else s) prev)"
proof (intro conjI impI)
  assume "atob (base64 file) = Inr bin \<and>
      (newClient pf = Some e
       \<or> generateContent pf (classifyRequest (base64 file) (mimeTypeOf file)) = Inl e
       \<or> (\<exists>t. generateContent pf (classifyRequest (base64 file) (mimeTypeOf file)) = Inr t
                \<and> jsonSummary pf (orElse t (js ''{}'')) = Inl e))"
  then have "extractTextFromDocument pf (base64 file) (mimeTypeOf file) (file_name file) =
           Inr (case utf8Decode pf bin of Inr t \<Rightarrow> t | Inl x \<Rightarrow> bin, catchSummary)"
    by (intro extract_on_failure [where e = e]) (rule conjunct1, assumption, rule conjunct2, assumption)
  then show "onload pf file pid prev =
      map (\<lambda>s. if src_id s = pid
                then s\<lparr>content := (case utf8Decode pf bin of Inr t \<Rightarrow> t | Inl x \<Rightarrow> bin),
                       summary := Some catchSummary, status := COMPLETED\<rparr>
                else s) prev"
    by (simp add: onload_def)
next
  assume "atob (base64 file) = Inr bin \<and> newClient pf = None \<and>
        generateContent pf (classifyRequest (base64 file) (mimeTypeOf file)) = Inr rt \<and>
        jsonSummary pf (orElse rt (js ''{}'')) = Inr None"
  then have "extractTextFromDocument pf (base64 file) (mimeTypeOf file) (file_name file) =
           Inr (case utf8Decode pf bin of Inr t \<Rightarrow> t | Inl x \<Rightarrow> bin, defaultSummary)"
    by (intro extract_no_summary [where t = rt]) simp_all
  then show "onload pf file pid prev =
         map (\<lambda>s. if src_id s = pid
                   then s\<lparr>content := (case utf8Decode pf bin of Inr t \<Rightarrow> t | Inl x \<Rightarrow> bin),
                          summary := Some defaultSummary, status := COMPLETED\<rparr>
                   else s) prev"
    by (simp add: onload_def)
next
  assume "atob (base64 file) = Inl e'"
  then show "onload pf file pid prev =
         map (\<lambda>s. if src_id s = pid then s\<lparr>summary := Some mountFailed, status := ERROR\<rparr>
                   else s) prev"
    by (simp add: onload_def extract_undecodable)
qed

lemma sample_store:
  "processFiles sampleIds sampleClock [sampleFile] (js ''all'') [] =
     [\<lparr>src_id = js ''f0'', partitionId = js ''uncategorized'', sequenceNumber = 1,
       name = js ''n.txt'', type = TEXT, content = [], url = None, dateAdded = 1000,
       size_label = Some (js ''0.0 KB''), status = PROCESSING,
       summary = Some placeholderSummary\<rparr>]"
  by (simp add: processFiles_def filePlaceholders_def sampleIds_def sampleClock_def
        sampleFile_def targetPartition_def fileKind_def endsWith_def toLowerCase_def
        lowerUnit_def sizeKB_def toString.simps js_def)

lemma sample_files:
  "base64 sampleFile = js ''aGk=''" "base64 brokenFile = js ''!''"
  by (simp_all add: sampleFile_def brokenFile_def)

theorem failed_classification_keeps_content_witness:
  "atob (base64 sampleFile) = Inr (js ''hi'')
   \<and> generateContent (samplePlatform networkError (Inr None))
        (classifyRequest (base64 sampleFile) (mimeTypeOf sampleFile))
       = Inl (ErrorObj (js ''fetch failed''))
   \<and> onload (samplePlatform networkError (Inr None)) sampleFile (js ''f0'')
        (processFiles sampleIds sampleClock [sampleFile] (js ''all'') []) =
       [\<lparr>src_id = js ''f0'', partitionId = js ''uncategorized'', sequenceNumber = 1,
         name = js ''n.txt'', type = TEXT, content = js ''hi'', url = None, dateAdded = 1000,
         size_label = Some (js ''0.0 KB''), status = COMPLETED,
         summary = Some catchSummary\<rparr>]
   \<and> generateContent (samplePlatform (Inr (Some (js ''{}''))) (Inr None))
        (classifyRequest (base64 sampleFile) (mimeTypeOf sampleFile)) = Inr (Some (js ''{}''))
   \<and> jsonSummary (samplePlatform (Inr (Some (js ''{}''))) (Inr None))
        (orElse (Some (js ''{}'')) (js ''{}'')) = Inr None
   \<and> onload (samplePlatform (Inr (Some (js ''{}''))) (Inr None)) sampleFile (js ''f0'')
        (processFiles sampleIds sampleClock [sampleFile] (js ''all'') []) =
       [\<lparr>src_id = js ''f0'', partitionId = js ''uncategorized'', sequenceNumber = 1,
         name = js ''n.txt'', type = TEXT, content = js ''hi'', url = None, dateAdded = 1000,
         size_label = Some (js ''0.0 KB''), status = COMPLETED,
         summary = Some defaultSummary\<rparr>]
   \<and> atob (base64 brokenFile) = Inl invalidCharacterError
   \<and> onload (samplePlatform networkError (Inr None)) brokenFile (js ''f0'')
        (processFiles sampleIds sampleClock [sampleFile] (js ''all'') []) =
       [\<lparr>src_id = js ''f0'', partitionId = js ''uncategorized'', sequenceNumber = 1,
         name = js ''n.txt'', type = TEXT, content = [], url = None, dateAdded = 1000,
         size_label = Some (js ''0.0 KB''), status = ERROR,
         summary = Some mountFailed\<rparr>]
   \<and> newClient keylessPlatform = Some (ErrorObj (js ''An API Key must be set''))
   \<and> onload keylessPlatform sampleFile (js ''f0'')
        (processFiles sampleIds sampleClock [sampleFile] (js ''all'') []) =
       [\<lparr>src_id = js ''f0'', partitionId = js ''uncategorized'', sequenceNumber = 1,
         name = js ''n.txt'', type = TEXT, content = js ''hi'', url = None, dateAdded = 1000,
         size_label = Some (js ''0.0 KB''), status = COMPLETED,
         summary = Some catchSummary\<rparr>]"
proof -
  let ?store = "processFiles sampleIds sampleClock [sampleFile] (js ''all'') []"
  let ?down = "samplePlatform networkError (Inr None)"
  let ?bare = "samplePlatform (Inr (Some (js ''{}''))) (Inr None)"
  have h1: "atob (base64 sampleFile) = Inr (js ''hi'')"
    by (simp add: sample_files atob_hi)
  have h2: "generateContent ?down (classifyRequest (base64 sampleFile) (mimeTypeOf sampleFile))
       = Inl (ErrorObj (js ''fetch failed''))"
    by (simp add: samplePlatform_def networkError_def)
  have h3: "generateContent ?bare (classifyRequest (base64 sampleFile) (mimeTypeOf sampleFile))
       = Inr (Some (js ''{}''))"
    by (simp add: samplePlatform_def)
  have h4: "jsonSummary ?bare (orElse (Some (js ''{}'')) (js ''{}'')) = Inr None"
    by (simp add: samplePlatform_def)
  have h5: "atob (base64 brokenFile) = Inl invalidCharacterError"
    by (simp add: sample_files atob_bang)
  have d: "utf8Decode ?down (js ''hi'') = Inr (js ''hi'')"
    "utf8Decode ?bare (js ''hi'') = Inr (js ''hi'')"
    "utf8Decode keylessPlatform (js ''hi'') = Inr (js ''hi'')"
    by (simp_all add: samplePlatform_def keylessPlatform_def)
  have c1: "onload ?down sampleFile (js ''f0'') ?store =
       [\<lparr>src_id = js ''f0'', partitionId = js ''uncategorized'', sequenceNumber = 1,
         name = js ''n.txt'', type = TEXT, content = js ''hi'', url = None, dateAdded = 1000,
         size_label = Some (js ''0.0 KB''), status = COMPLETED,
         summary = Some catchSummary\<rparr>]"
    using failed_classification_keeps_content [of sampleFile "js ''hi''" ?down
        "ErrorObj (js ''fetch failed'')" "js ''f0''" ?store, THEN conjunct1] h1 h2
    by (simp add: sample_store d)
  have c2: "onload ?bare sampleFile (js ''f0'') ?store =
       [\<lparr>src_id = js ''f0'', partitionId = js ''uncategorized'', sequenceNumber = 1,
         name = js ''n.txt'', type = TEXT, content = js ''hi'', url = None, dateAdded = 1000,
         size_label = Some (js ''0.0 KB''), status = COMPLETED,
         summary = Some defaultSummary\<rparr>]"
    using failed_classification_keeps_content [of sampleFile "js ''hi''" ?bare _
        "js ''f0''" ?store "Some (js ''{}'')", THEN conjunct2, THEN conjunct1] h1 h3 h4
      sample_clients(1) [of "Inr (Some (js ''{}''))" "Inr None"]
    by (simp add: sample_store d)
  have c3: "onload ?down brokenFile (js ''f0'') ?store =
       [\<lparr>src_id = js ''f0'', partitionId = js ''uncategorized'', sequenceNumber = 1,
         name = js ''n.txt'', type = TEXT, content = [], url = None, dateAdded = 1000,
         size_label = Some (js ''0.0 KB''), status = ERROR,
         summary = Some mountFailed\<rparr>]"
    using failed_classification_keeps_content [of brokenFile _ ?down _
        "js ''f0''" ?store _ invalidCharacterError, THEN conjunct2, THEN conjunct2] h5
    by (simp add: sample_store)
  have c4: "onload keylessPlatform sampleFile (js ''f0'') ?store =
       [\<lparr>src_id = js ''f0'', partitionId = js ''uncategorized'', sequenceNumber = 1,
         name = js ''n.txt'', type = TEXT, content = js ''hi'', url = None, dateAdded = 1000,
         size_label = Some (js ''0.0 KB''), status = COMPLETED,
         summary = Some catchSummary\<rparr>]"
    using failed_classification_keeps_content [of sampleFile "js ''hi''" keylessPlatform
        "ErrorObj (js ''An API Key must be set'')" "js ''f0''" ?store, THEN conjunct1]
      h1 sample_clients(2)
    by (simp add: sample_store d)
  show ?thesis
    by (intro conjI h1 h2 c1 h3 h4 c2 h5 c3 sample_clients(2) c4)
qed

text \<open>
  Claim C1, counterexample. The remote model is unreachable and the file holds the two
  bytes \<open>hi\<close>: the status of the document afterwards is COMPLETED, not ERROR.
\<close>

theorem failed_classification_status_counterexample:
  "generateContent (samplePlatform networkError (Inr None))
        (classifyRequest (base64 sampleFile) (mimeTypeOf sampleFile))
       = Inl (ErrorObj (js ''fetch failed''))
   \<and> map status (onload (samplePlatform networkError (Inr None)) sampleFile (js ''f0'')
        (processFiles sampleIds sampleClock [sampleFile] (js ''all'') [])) = [COMPLETED]
   \<and> COMPLETED \<noteq> ERROR"
proof -
  have "extractTextFromDocument (samplePlatform networkError (Inr None)) (base64 sampleFile)
          (mimeTypeOf sampleFile) (file_name sampleFile) = Inr (js ''hi'', catchSummary)"
    by (simp add: extractTextFromDocument_def extractTry_def safeBase64ToText_def
          sample_files atob_hi samplePlatform_def networkError_def)
  then show ?thesis
    by (simp add: onload_def sample_store samplePlatform_def networkError_def)
qed

section \<open>One turn of the conversation\<close>

text \<open>
  Claim C5, as amended. For every turn whose query is not blank (not empty after trimming)
  and that starts while no analysis is running, the log afterwards is the log before,
  followed by one user message with the query and then one model message with the answer of
  \<open>analyzeData\<close>, and the requests sent are those of \<open>analyzeData\<close>; when the
  constructor of the client or the remote call throws an \<open>Error\<close>, that answer is the
  failure prefix followed by the message of the error. For a blank query, and for a call
  while an analysis is running, the handler leaves the whole state as it is and sends
  nothing.
\<close>

theorem send_message_appends_turn:
  "(trim (query st) = [] \<or> isAnalyzing st \<longrightarrow> handleSendMessage pf clock st = (st, []))
   \<and> (trim (query st) \<noteq> [] \<and> \<not> isAnalyzing st \<longrightarrow>
        chatHistory (fst (handleSendMessage pf clock st)) =
          chatHistory st @
            [userMessage clock (query st),
             aiMessage clock
               (fst (analyzeData pf (query st) (chatHistory st) (analysisSources st)))]
        \<and> snd (handleSendMessage pf clock st) =
            snd (analyzeData pf (query st) (chatHistory st) (analysisSources st)))
   \<and> role (userMessage clock (query st)) = User
   \<and> msg_text (userMessage clock (query st)) = query st
   \<and> role (aiMessage clock r) = Model \<and> msg_text (aiMessage clock r) = r
   \<and> (newClient pf = Some (ErrorObj m) \<longrightarrow>
        fst (analyzeData pf (query st) (chatHistory st) (analysisSources st)) = failPrefix @ m)
   \<and> (newClient pf = None \<and> validSources (analysisSources st) \<noteq> [] \<and>
        generateContent pf (analyzeRequest (query st) (chatHistory st) (analysisSources st))
          = Inl (ErrorObj m) \<longrightarrow>
        fst (analyzeData pf (query st) (chatHistory st) (analysisSources st)) = failPrefix @ m)"
proof -
  have skip: "trim (query st) = [] \<or> isAnalyzing st \<longrightarrow>
                handleSendMessage pf clock st = (st, [])"
    by (simp add: handleSendMessage_def)
  have turn: "trim (query st) \<noteq> [] \<and> \<not> isAnalyzing st \<longrightarrow>
        chatHistory (fst (handleSendMessage pf clock st)) =
          chatHistory st @
            [userMessage clock (query st),
             aiMessage clock
               (fst (analyzeData pf (query st) (chatHistory st) (analysisSources st)))]
        \<and> snd (handleSendMessage pf clock st) =
            snd (analyzeData pf (query st) (chatHistory st) (analysisSources st))"
    by (simp add: handleSendMessage_def Let_def)
  have msgs: "role (userMessage clock (query st)) = User"
    "msg_text (userMessage clock (query st)) = query st"
    "role (aiMessage clock r) = Model" "msg_text (aiMessage clock r) = r"
    by (simp_all add: userMessage_def aiMessage_def)
  have key: "newClient pf = Some (ErrorObj m) \<longrightarrow>
        fst (analyzeData pf (query st) (chatHistory st) (analysisSources st)) = failPrefix @ m"
    by (simp add: analyzeData_def thrownMessage_def)
  have call: "newClient pf = None \<and> validSources (analysisSources st) \<noteq> [] \<and>
        generateContent pf (analyzeRequest (query st) (chatHistory st) (analysisSources st))
          = Inl (ErrorObj m) \<longrightarrow>
        fst (analyzeData pf (query st) (chatHistory st) (analysisSources st)) = failPrefix @ m"
    by (simp add: analyzeData_def thrownMessage_def)
  show ?thesis
    by (intro conjI skip turn msgs key call)
qed

lemma sample_analysisSources: "analysisSources (sampleState q) = [sampleText 3]"
  by (simp add: analysisSources_def sampleState_def sampleText_def js_def)

lemma sample_turn:
  "query (sampleState q) = q" "chatHistory (sampleState q) = []"
  "\<not> isAnalyzing (sampleState q)" "isAnalyzing (busyState q)" "query (busyState q) = q"
  by (simp_all add: sampleState_def busyState_def)

lemma sample_trim: "trim (js ''hi'') = js ''hi''" "trim (js '' '') = []"
  by (simp_all add: trim_def isWhiteSpace_def js_def)

theorem send_message_appends_turn_witness:
  "trim (query (sampleState (js ''hi''))) \<noteq> [] \<and> \<not> isAnalyzing (sampleState (js ''hi''))
   \<and> newClient (samplePlatform networkError (Inr None)) = None
   \<and> validSources (analysisSources (sampleState (js ''hi''))) \<noteq> []
   \<and> map role (chatHistory (fst (handleSendMessage (samplePlatform networkError (Inr None))
        sampleClock (sampleState (js ''hi''))))) = [User, Model]
   \<and> map msg_text (chatHistory (fst (handleSendMessage (samplePlatform networkError (Inr None))
        sampleClock (sampleState (js ''hi''))))) = [js ''hi'', failPrefix @ js ''fetch failed'']
   \<and> map msg_text (chatHistory (fst (handleSendMessage keylessPlatform
        sampleClock (sampleState (js ''hi''))))) = [js ''hi'', failPrefix @ js ''An API Key must be set'']
   \<and> trim (query (sampleState (js '' ''))) = []
   \<and> handleSendMessage (samplePlatform networkError (Inr None)) sampleClock
        (sampleState (js '' '')) = (sampleState (js '' ''), [])
   \<and> isAnalyzing (busyState (js ''hi''))
   \<and> handleSendMessage (samplePlatform networkError (Inr None)) sampleClock
        (busyState (js ''hi'')) = (busyState (js ''hi''), [])"
proof -
  let ?down = "samplePlatform networkError (Inr None)"
  let ?st = "sampleState (js ''hi'')"
  have h1: "trim (query ?st) \<noteq> []"
    by (simp add: sample_turn sample_trim) (simp add: js_def)
  have h2: "\<not> isAnalyzing ?st"
    by (rule sample_turn)
  have h3: "validSources (analysisSources ?st) \<noteq> []"
    by (simp add: sample_analysisSources validSources_def sampleText_def)
  have h4: "generateContent ?down
              (analyzeRequest (query ?st) (chatHistory ?st) (analysisSources ?st))
            = Inl (ErrorObj (js ''fetch failed''))"
    by (simp add: samplePlatform_def networkError_def)
  have h5: "trim (query (sampleState (js '' ''))) = []"
    by (simp add: sample_turn sample_trim)
  note t = send_message_appends_turn [of ?st ?down sampleClock "js ''x''" "js ''fetch failed''"]
  note k = send_message_appends_turn [of ?st keylessPlatform sampleClock "js ''x''"
      "js ''An API Key must be set''"]
  note b = send_message_appends_turn [of "sampleState (js '' '')" ?down sampleClock]
  note g = send_message_appends_turn [of "busyState (js ''hi'')" ?down sampleClock]
  have a1: "fst (analyzeData ?down (query ?st) (chatHistory ?st) (analysisSources ?st))
              = failPrefix @ js ''fetch failed''"
    using t sample_clients(1) [of networkError "Inr None"] h3 h4 by blast
  have a2: "fst (analyzeData keylessPlatform (query ?st) (chatHistory ?st) (analysisSources ?st))
              = failPrefix @ js ''An API Key must be set''"
    using k sample_clients(2) by blast
  have l1: "chatHistory (fst (handleSendMessage ?down sampleClock ?st)) =
        chatHistory ?st @ [userMessage sampleClock (query ?st),
           aiMessage sampleClock
             (fst (analyzeData ?down (query ?st) (chatHistory ?st) (analysisSources ?st)))]"
    using t h1 h2 by blast
  have l2: "chatHistory (fst (handleSendMessage keylessPlatform sampleClock ?st)) =
        chatHistory ?st @ [userMessage sampleClock (query ?st),
           aiMessage sampleClock
             (fst (analyzeData keylessPlatform (query ?st) (chatHistory ?st)
                (analysisSources ?st)))]"
    using k h1 h2 by blast
  have c1: "map role (chatHistory (fst (handleSendMessage ?down sampleClock ?st)))
              = [User, Model]"
    by (simp add: l1 sample_turn userMessage_def aiMessage_def)
  have c2: "map msg_text (chatHistory (fst (handleSendMessage ?down sampleClock ?st)))
              = [js ''hi'', failPrefix @ js ''fetch failed'']"
    using a1 by (simp add: l1 sample_turn userMessage_def aiMessage_def)
  have c3: "map msg_text (chatHistory (fst (handleSendMessage keylessPlatform sampleClock ?st)))
              = [js ''hi'', failPrefix @ js ''An API Key must be set'']"
    using a2 by (simp add: l2 sample_turn userMessage_def aiMessage_def)
  have c4: "handleSendMessage ?down sampleClock (sampleState (js '' ''))
              = (sampleState (js '' ''), [])"
    using b h5 by blast
  have c5: "handleSendMessage ?down sampleClock (busyState (js ''hi''))
              = (busyState (js ''hi''), [])"
    using g sample_turn(4) [of "js ''hi''"] by blast
  show ?thesis
    by (intro conjI h1 h2 sample_clients(1) h3 c1 c2 c3 h5 c4 sample_turn(4) c5)
qed

text \<open>
  Claim C5, counterexample. A query of one space is not empty, and a query \<open>hi\<close> is sent
  while an analysis is running: in both turns the handler returns the state as it was,
  with no message added to the log, and sends nothing.
\<close>

theorem ignored_turn_counterexample:
  "query (sampleState (js '' '')) \<noteq> []
   \<and> handleSendMessage (samplePlatform networkError (Inr None)) sampleClock
        (sampleState (js '' '')) = (sampleState (js '' ''), [])
   \<and> query (busyState (js ''hi'')) \<noteq> []
   \<and> handleSendMessage (samplePlatform networkError (Inr None)) sampleClock
        (busyState (js ''hi'')) = (busyState (js ''hi''), [])"
proof -
  have a: "query (sampleState (js '' '')) \<noteq> []" "query (busyState (js ''hi'')) \<noteq> []"
    by (simp_all add: sample_turn js_def)
  have b: "handleSendMessage (samplePlatform networkError (Inr None)) sampleClock
        (sampleState (js '' '')) = (sampleState (js '' ''), [])"
    by (simp add: handleSendMessage_def sample_turn sample_trim)
  have c: "handleSendMessage (samplePlatform networkError (Inr None)) sampleClock
        (busyState (js ''hi'')) = (busyState (js ''hi''), [])"
    by (simp add: handleSendMessage_def sample_turn)
  show ?thesis by (intro conjI a b c)
qed

section \<open>Dropping on the partition "all"\<close>

lemma targetPartition_not_all: "targetPartition pid \<noteq> js ''all''"
  by (simp add: targetPartition_def js_def)

lemma filePlaceholders_partition:
  "s \<in> set (filePlaceholders ids nows n files pid) \<Longrightarrow> partitionId s = targetPartition pid"
  by (auto simp: filePlaceholders_def)

lemma reassign_partition:
  "s \<in> set (reassign i p srcs) \<Longrightarrow> src_id s = i \<Longrightarrow> partitionId s = p"
proof -
  assume m: "s \<in> set (reassign i p srcs)" and i: "src_id s = i"
  from m obtain x where x: "x \<in> set srcs"
    and s: "s = (if src_id x = i then x\<lparr>partitionId := p\<rparr> else x)"
    unfolding reassign_def by (auto simp only: set_map image_iff)
  show ?thesis
  proof (cases "src_id x = i")
    case True
    with s show ?thesis by simp
  next
    case False
    with s i show ?thesis by simp
  qed
qed

lemma reassign_keeps:
  "\<forall>s\<in>set srcs. partitionId s \<noteq> a \<Longrightarrow> p \<noteq> a \<Longrightarrow> \<forall>s\<in>set (reassign i p srcs). partitionId s \<noteq> a"
proof -
  assume a: "\<forall>s\<in>set srcs. partitionId s \<noteq> a" and p: "p \<noteq> a"
  show ?thesis
  proof
    fix s assume "s \<in> set (reassign i p srcs)"
    then obtain x where x: "x \<in> set srcs"
      and s: "s = (if src_id x = i then x\<lparr>partitionId := p\<rparr> else x)"
      unfolding reassign_def by (auto simp only: set_map image_iff)
    from a x have "partitionId x \<noteq> a" by simp
    with s p show "partitionId s \<noteq> a" by (cases "src_id x = i") simp_all
  qed
qed

lemma onDrop_keeps:
  assumes "\<forall>s\<in>set (sources st). partitionId s \<noteq> js ''all''"
  shows "\<forall>s\<in>set (sources (onDrop ids nows pid ev st)). partitionId s \<noteq> js ''all''"
proof (cases "sourceId ev \<noteq> [] \<and> pid \<noteq> js ''all''")
  case True
  then show ?thesis
    using reassign_keeps [OF assms, of pid "sourceId ev"] by (simp add: onDrop_def)
next
  case False
  have "\<forall>s\<in>set (processFiles ids nows (dropped ev) pid (sources st)). partitionId s \<noteq> js ''all''"
    using assms targetPartition_not_all [of pid]
    by (auto simp: processFiles_def dest: filePlaceholders_partition)
  then have pf: "\<forall>s\<in>set (sources (st\<lparr>sources := processFiles ids nows (dropped ev) pid (sources st)\<rparr>)).
                  partitionId s \<noteq> js ''all''"
    by simp
  have eq: "sources (onDrop ids nows pid ev st) =
              (if length (dropped ev) > 0
               then processFiles ids nows (dropped ev) pid (sources st) else sources st)"
    using False unfolding onDrop_def Let_def by (simp only: if_not_P) (simp split: if_split)
  show ?thesis
  proof (cases "length (dropped ev) > 0")
    case True
    with eq pf show ?thesis by simp
  next
    case False
    with eq assms show ?thesis by simp
  qed
qed

text \<open>
  Claim C6, as amended. Dropping a card on the partition "all" leaves every document as it
  is; no drop gives a document the partition "all" when none had it before; files ingested
  with the target "all" go to "uncategorized"; a reassignment gives the document with the
  dragged identifier the target partition. In the other variant of the application,
  \<open>handlePartitionDrop\<close>, a card dropped on "all" is reassigned to "uncategorized".
\<close>

theorem drop_on_all_partition:
  "(dropped ev = [] \<longrightarrow> onDrop ids nows (js ''all'') ev st = st)
   \<and> ((\<forall>s\<in>set (sources st). partitionId s \<noteq> js ''all'') \<longrightarrow>
        (\<forall>s\<in>set (sources (onDrop ids nows pid ev st)). partitionId s \<noteq> js ''all''))
   \<and> (\<forall>s\<in>set (filePlaceholders ids nows n files (js ''all'')).
          partitionId s = js ''uncategorized'')
   \<and> (sourceId ev \<noteq> [] \<longrightarrow>
        sources (handlePartitionDrop ids nows texts (js ''all'') ev st) =
          reassign (sourceId ev) (js ''uncategorized'') (sources st))
   \<and> (\<forall>s\<in>set (reassign i p srcs). src_id s = i \<longrightarrow> partitionId s = p)"
proof -
  have a: "dropped ev = [] \<longrightarrow> onDrop ids nows (js ''all'') ev st = st"
    by (simp add: onDrop_def)
  have b: "\<forall>s\<in>set (filePlaceholders ids nows n files (js ''all'')).
          partitionId s = js ''uncategorized''"
    by (auto simp: targetPartition_def dest: filePlaceholders_partition)
  have c: "sourceId ev \<noteq> [] \<longrightarrow>
        sources (handlePartitionDrop ids nows texts (js ''all'') ev st) =
          reassign (sourceId ev) (js ''uncategorized'') (sources st)"
    by (simp add: handlePartitionDrop_def)
  have d: "(\<forall>s\<in>set (sources st). partitionId s \<noteq> js ''all'') \<longrightarrow>
        (\<forall>s\<in>set (sources (onDrop ids nows pid ev st)). partitionId s \<noteq> js ''all'')"
    using onDrop_keeps [of st ids nows pid ev] by (rule impI)
  have e: "\<forall>s\<in>set (reassign i p srcs). src_id s = i \<longrightarrow> partitionId s = p"
    using reassign_partition [of _ i p srcs] by (intro ballI impI)
  show ?thesis by (intro conjI a d b c e)
qed

lemma sample_sources: "sources (sampleState q) = [sampleText 3]"
  by (simp add: sampleState_def)

theorem drop_on_all_partition_witness:
  "dropped cardDrop = []
   \<and> onDrop sampleIds sampleClock (js ''all'') cardDrop (sampleState []) = sampleState []
   \<and> partitionId (sampleText 3) \<noteq> js ''all''
   \<and> partitionId (hd (sources (onDrop sampleIds sampleClock (js ''sales'') cardDrop
         (sampleState [])))) \<noteq> js ''all''
   \<and> partitionId (hd (filePlaceholders sampleIds sampleClock 0 [sampleFile] (js ''all'')))
       = js ''uncategorized''
   \<and> sourceId cardDrop \<noteq> []
   \<and> sources (handlePartitionDrop sampleIds sampleClock sampleIds (js ''all'') cardDrop
        (sampleState [])) = reassign (js ''d1'') (js ''uncategorized'') [sampleText 3]
   \<and> src_id (hd (reassign (js ''d1'') (js ''sales'') [sampleText 3])) = js ''d1''
   \<and> partitionId (hd (reassign (js ''d1'') (js ''sales'') [sampleText 3])) = js ''sales''"
proof -
  have h1: "dropped cardDrop = []" "sourceId cardDrop \<noteq> []" "sourceId cardDrop = js ''d1''"
    by (simp_all add: cardDrop_def js_def)
  have h0: "partitionId (sampleText 3) \<noteq> js ''all''"
    by (simp add: sampleText_def js_def)
  then have h2: "\<forall>s\<in>set (sources (sampleState [])). partitionId s \<noteq> js ''all''"
    by (simp add: sample_sources)
  note t = drop_on_all_partition [of cardDrop sampleIds sampleClock "sampleState []" "js ''sales''" 0
      "[sampleFile]" sampleIds "js ''d1''" "js ''sales''" "[sampleText 3]"]
  have c1: "onDrop sampleIds sampleClock (js ''all'') cardDrop (sampleState [])
      = sampleState []" by (rule t [THEN conjunct1, THEN mp, OF h1(1)])
  have c2: "\<forall>s\<in>set (sources (onDrop sampleIds sampleClock (js ''sales'') cardDrop
      (sampleState []))). partitionId s \<noteq> js ''all''"
    by (rule t [THEN conjunct2, THEN conjunct1, THEN mp, OF h2])
  have n2: "sources (onDrop sampleIds sampleClock (js ''sales'') cardDrop (sampleState []))
              \<noteq> []"
    by (simp add: onDrop_def h1 sample_sources reassign_def js_def)
  have c2': "partitionId (hd (sources (onDrop sampleIds sampleClock (js ''sales'') cardDrop
         (sampleState [])))) \<noteq> js ''all''"
    using c2 hd_in_set [OF n2] by (rule bspec)
  have c3: "\<forall>s\<in>set (filePlaceholders sampleIds sampleClock 0 [sampleFile] (js ''all'')).
         partitionId s = js ''uncategorized''"
    by (rule t [THEN conjunct2, THEN conjunct2, THEN conjunct1])
  have n3: "filePlaceholders sampleIds sampleClock 0 [sampleFile] (js ''all'') \<noteq> []"
    by (simp add: filePlaceholders_def)
  have c3': "partitionId (hd (filePlaceholders sampleIds sampleClock 0 [sampleFile] (js ''all'')))
       = js ''uncategorized''"
    using c3 hd_in_set [OF n3] by (rule bspec)
  have c4: "sources (handlePartitionDrop sampleIds sampleClock sampleIds (js ''all'')
      cardDrop (sampleState [])) = reassign (sourceId cardDrop) (js ''uncategorized'')
        (sources (sampleState []))"
    by (rule t [THEN conjunct2, THEN conjunct2, THEN conjunct2, THEN conjunct1, THEN mp, OF h1(2)])
  have c5: "\<forall>s\<in>set (reassign (js ''d1'') (js ''sales'') [sampleText 3]).
         src_id s = js ''d1'' \<longrightarrow> partitionId s = js ''sales''"
    by (rule t [THEN conjunct2, THEN conjunct2, THEN conjunct2, THEN conjunct2])
  have n5: "reassign (js ''d1'') (js ''sales'') [sampleText 3] \<noteq> []"
    by (simp add: reassign_def)
  have i5: "src_id (hd (reassign (js ''d1'') (js ''sales'') [sampleText 3])) = js ''d1''"
    by (simp add: reassign_def sampleText_def)
  have c5': "partitionId (hd (reassign (js ''d1'') (js ''sales'') [sampleText 3])) = js ''sales''"
    using c5 [THEN bspec, OF hd_in_set [OF n5]] i5 by (rule mp)
  from c4 have c4': "sources (handlePartitionDrop sampleIds sampleClock sampleIds (js ''all'')
      cardDrop (sampleState [])) = reassign (js ''d1'') (js ''uncategorized'') [sampleText 3]"
    by (simp only: h1(3) sample_sources)
  show ?thesis by (intro conjI h1(1) c1 h0 c2' c3' h1(2) c4' i5 c5')
qed

lemma sample_reassigned:
  "map partitionId (reassign (js ''d1'') (js ''uncategorized'') [sampleText 3])
     = [js ''uncategorized'']"
  by (simp add: reassign_def sampleText_def)

text \<open>
  The document \<open>d1\<close> of the partition "config" is dropped on "all": afterwards its
  partition is still "config", not "uncategorized".
\<close>

theorem drop_on_all_not_redirected_counterexample:
  "sourceId cardDrop = js ''d1''
   \<and> map src_id (sources (sampleState [])) = [js ''d1'']
   \<and> map partitionId (sources (onDrop sampleIds sampleClock (js ''all'') cardDrop (sampleState [])))
       = [js ''config'']
   \<and> js ''config'' \<noteq> js ''uncategorized''"
proof -
  have "onDrop sampleIds sampleClock (js ''all'') cardDrop (sampleState []) = sampleState []"
    by (simp add: onDrop_def cardDrop_def)
  then show ?thesis
    by (simp add: cardDrop_def sample_sources sampleText_def js_def)
qed

section \<open>Rows of a table\<close>

text \<open>A file that processFiles classifies as CSV is treated as a table by the assembler.\<close>

lemma fileKind_CSV_isCsv: "fileKind (name s) = CSV \<Longrightarrow> isCsv s"
  using endsWith_toLowerCase [of "name s" "js ''.csv''"]
  by (auto simp: fileKind_def isCsv_def toLowerCase_csv split: if_splits)























end
